theory Spec2Isabelle
  imports Complex_Main "HOL-Library.Multiset" "HOL-Library.Char_ord" "HOL-Library.List_Lexorder"
begin

section \<open>Data model of \<^verbatim>\<open>trajectory_data_analysis/utils/nuplan.py\<close>\<close>

text \<open>
  The module reads per-scenario SQLite databases and aggregates their rows. A database
  is modelled by the three tables the functions query; a table is the list of its rows.
  Float columns are modelled by \<^typ>\<open>real\<close> (finite values, exact arithmetic); the results
  of a numpy division, which may be infinite or NaN, have a type of their own.
\<close>

type_synonym token = string

text \<open>One row of \<^verbatim>\<open>lidar_box\<close>: only the columns the module reads.\<close>

record lidar_box_row =
  track_token :: token
  row_x :: real
  row_y :: real
  row_vx :: real
  row_vy :: real
  row_vz :: real

text \<open>
  \<^verbatim>\<open>df_category\<close>: rows (token, name); \<^verbatim>\<open>df_track\<close>: rows (token, category_token);
  \<^verbatim>\<open>df_lidar_box\<close>: the per-frame boxes.
\<close>

record motion_db =
  df_category :: "(token \<times> string) list"
  df_track :: "(token \<times> token) list"
  df_lidar_box :: "lidar_box_row list"

text \<open>
  The file system: what \<^verbatim>\<open>sqlite3.connect(file_path)\<close> followed by the three
  \<^verbatim>\<open>SELECT * FROM ...\<close> queries yields. \<open>None\<close> is a path whose tables cannot be
  read (pandas raises a DatabaseError).
\<close>

type_synonym filesystem = "string \<Rightarrow> motion_db option"

datatype error = KeyError | IndexError | ValueError | DatabaseError | ZeroDivisionError

datatype npfloat = Fin real | PosInf | NegInf | NaN

definition categories :: "string list" where
  "categories = [''vehicle'', ''bicycle'', ''pedestrian'', ''traffic_cone'', ''barrier'',
     ''czone_sign'', ''generic_object'']"

definition dynamic_category :: "string list" where
  "dynamic_category = [''vehicle'', ''bicycle'', ''pedestrian'', ''generic_object'']"

section \<open>Python and numpy primitives\<close>

text \<open>\<^verbatim>\<open>int(r)\<close> on a finite float truncates toward zero.\<close>

definition py_int :: "real \<Rightarrow> int" where
  "py_int r = (if 0 \<le> r then \<lfloor>r\<rfloor> else \<lceil>r\<rceil>)"

text \<open>\<^verbatim>\<open>xs[:k]\<close>: a negative \<open>k\<close> counts from the end.\<close>

definition py_slice_to :: "int \<Rightarrow> 'a list \<Rightarrow> 'a list" where
  "py_slice_to k xs = (if 0 \<le> k then take (nat k) xs else take (length xs - nat (- k)) xs)"

text \<open>\<^verbatim>\<open>s[-3:]\<close>: the last three characters, or all of a shorter string.\<close>

definition last3 :: "string \<Rightarrow> string" where
  "last3 s = drop (length s - 3) s"

text \<open>\<^verbatim>\<open>dict(zip(keys, values))\<close> over the rows of a table: a later row with the same key wins.\<close>

definition dict_zip :: "('k \<times> 'v) list \<Rightarrow> ('k \<rightharpoonup> 'v)" where
  "dict_zip kvs = map_of (rev kvs)"

text \<open>\<^verbatim>\<open>d[k]\<close> raises KeyError on a missing key.\<close>

definition getitem :: "('k \<rightharpoonup> 'v) \<Rightarrow> 'k \<Rightarrow> error + 'v" where
  "getitem d k = (case d k of None \<Rightarrow> Inl KeyError | Some v \<Rightarrow> Inr v)"

text \<open>\<^verbatim>\<open>dict_category[dict_track[tok]]\<close>: the inner lookup is evaluated first.\<close>

definition resolve :: "(token \<rightharpoonup> string) \<Rightarrow> (token \<rightharpoonup> token) \<Rightarrow> token \<Rightarrow> error + string" where
  "resolve dict_category dict_track tok =
     (case getitem dict_track tok of
        Inl e \<Rightarrow> Inl e
      | Inr ct \<Rightarrow> getitem dict_category ct)"

text \<open>
  An index into a numpy axis of size \<open>n\<close>: \<open>0 \<le> i < n\<close> is itself, \<open>-n \<le> i < 0\<close> counts
  from the end, anything else raises IndexError (\<open>None\<close>).
\<close>

definition np_index :: "int \<Rightarrow> int \<Rightarrow> nat option" where
  "np_index n i =
     (if 0 \<le> i \<and> i < n then Some (nat i)
      else if - n \<le> i \<and> i < 0 then Some (nat (i + n))
      else None)"

text \<open>
  numpy's float division does not raise: a zero divisor gives NaN for a zero dividend and
  a signed infinity otherwise (with a RuntimeWarning only).
\<close>

definition np_div :: "real \<Rightarrow> real \<Rightarrow> npfloat" where
  "np_div a b =
     (if b \<noteq> 0 then Fin (a / b)
      else if a = 0 then NaN
      else if 0 < a then PosInf else NegInf)"

text \<open>\<^verbatim>\<open>np.sqrt(vx ** 2 + vy ** 2 + vz ** 2)\<close> of one row.\<close>

definition speed :: "lidar_box_row \<Rightarrow> real" where
  "speed r = sqrt ((row_vx r)\<^sup>2 + (row_vy r)\<^sup>2 + (row_vz r)\<^sup>2)"

section \<open>\<^verbatim>\<open>plot_trajectories\<close>\<close>

text \<open>
  The three lists \<^verbatim>\<open>x\<close>, \<^verbatim>\<open>y\<close>, \<^verbatim>\<open>category_col\<close> grow together and become the
  columns of one DataFrame; the model keeps them as the list of its rows. An exception
  discards them.
\<close>

type_synonym scatter_rows = "(real \<times> real \<times> string) list"

fun rows_trajectories ::
  "(token \<rightharpoonup> string) \<Rightarrow> (token \<rightharpoonup> token) \<Rightarrow> lidar_box_row list \<Rightarrow> scatter_rows
     \<Rightarrow> error + scatter_rows" where
  "rows_trajectories dict_category dict_track [] acc = Inr acc"
| "rows_trajectories dict_category dict_track (r # rs) acc =
     (case resolve dict_category dict_track (track_token r) of
        Inl e \<Rightarrow> Inl e
      | Inr c \<Rightarrow> rows_trajectories dict_category dict_track rs (acc @ [(row_x r, row_y r, c)]))"

fun files_trajectories ::
  "filesystem \<Rightarrow> string \<Rightarrow> string \<Rightarrow> string list \<Rightarrow> scatter_rows \<Rightarrow> error + scatter_rows" where
  "files_trajectories fsys data_path trajectory_folder [] acc = Inr acc"
| "files_trajectories fsys data_path trajectory_folder (trajectory_file # rest) acc =
     (if last3 trajectory_file \<noteq> ''.db''
      then files_trajectories fsys data_path trajectory_folder rest acc
      else
        (case fsys (data_path @ trajectory_folder @ ''/'' @ trajectory_file) of
           None \<Rightarrow> Inl DatabaseError
         | Some db \<Rightarrow>
             (case rows_trajectories (dict_zip (df_category db)) (dict_zip (df_track db))
                     (df_lidar_box db) acc of
                Inl e \<Rightarrow> Inl e
              | Inr acc' \<Rightarrow> files_trajectories fsys data_path trajectory_folder rest acc')))"

text \<open>
  \<open>shuffle\<close> is the permutation \<^verbatim>\<open>np.random.shuffle\<close> applies in this call (it depends on
  the state of numpy's global generator). The first component of the result is the
  caller's list after the call, the second the rows handed to the scatter plot.
\<close>

definition plot_trajectories ::
  "(string list \<Rightarrow> string list) \<Rightarrow> filesystem \<Rightarrow> string \<Rightarrow> string \<Rightarrow> string list
     \<Rightarrow> real option \<Rightarrow> string list \<times> (error + scatter_rows)" where
  "plot_trajectories shuffle fsys data_path trajectory_folder trajectory_files proportion =
     (case proportion of
        Some p \<Rightarrow>
          (let shuffled = shuffle trajectory_files;
               trajectory_files_subset =
                 py_slice_to (py_int (real (length shuffled) * p)) shuffled
           in (shuffled,
               files_trajectories fsys data_path trajectory_folder trajectory_files_subset []))
      | None \<Rightarrow>
          (trajectory_files,
           files_trajectories fsys data_path trajectory_folder trajectory_files []))"

section \<open>\<^verbatim>\<open>plot_class_proportion\<close>\<close>

text \<open>
  \<^verbatim>\<open>df_proportion\<close> has one row per folder and one column per dynamic category. A cell
  never assigned is NaN (\<open>None\<close>); an assigned cell holds the \<^verbatim>\<open>len(...)\<close> written
  last. The chained assignment \<^verbatim>\<open>df_proportion.loc[folder][category] = n\<close> is modelled
  as the assignment of that cell.
\<close>

type_synonym proportion_table = "string \<times> string \<rightharpoonup> nat"

fun count_categories ::
  "(string \<rightharpoonup> token) \<Rightarrow> (token \<times> token) list \<Rightarrow> string \<Rightarrow> string list \<Rightarrow> proportion_table
     \<Rightarrow> error + proportion_table" where
  "count_categories dict_category track trajectory_folder [] df_proportion = Inr df_proportion"
| "count_categories dict_category track trajectory_folder (category # cs) df_proportion =
     (case getitem dict_category category of
        Inl e \<Rightarrow> Inl e
      | Inr tok \<Rightarrow>
          count_categories dict_category track trajectory_folder cs
            (df_proportion((trajectory_folder, category) \<mapsto>
               length (filter (\<lambda>row. snd row = tok) track))))"

fun files_class_proportion ::
  "filesystem \<Rightarrow> string \<Rightarrow> string \<Rightarrow> string list \<Rightarrow> proportion_table
     \<Rightarrow> error + proportion_table" where
  "files_class_proportion fsys data_path trajectory_folder [] df_proportion = Inr df_proportion"
| "files_class_proportion fsys data_path trajectory_folder (trajectory_file # rest) df_proportion =
     (if last3 trajectory_file \<noteq> ''.db''
      then files_class_proportion fsys data_path trajectory_folder rest df_proportion
      else
        (case fsys (data_path @ trajectory_folder @ ''/'' @ trajectory_file) of
           None \<Rightarrow> Inl DatabaseError
         | Some db \<Rightarrow>
             (case count_categories
                     (dict_zip (map (\<lambda>row. (snd row, fst row)) (df_category db)))
                     (df_track db) trajectory_folder dynamic_category df_proportion of
                Inl e \<Rightarrow> Inl e
              | Inr df_proportion' \<Rightarrow>
                  files_class_proportion fsys data_path trajectory_folder rest df_proportion')))"

text \<open>
  The loop over \<^verbatim>\<open>enumerate(trajectory_folders)\<close>. \<open>shuffle i\<close> is the permutation drawn
  for folder \<open>i\<close>; it reorders the caller's inner list \<^verbatim>\<open>trajectory_files[i]\<close> in place,
  so the list of lists is threaded through the loop and returned, also when a later
  step raises.
\<close>

fun folders_class_proportion ::
  "(nat \<Rightarrow> string list \<Rightarrow> string list) \<Rightarrow> filesystem \<Rightarrow> string \<Rightarrow> real option \<Rightarrow> nat
     \<Rightarrow> string list \<Rightarrow> string list list \<Rightarrow> proportion_table
     \<Rightarrow> string list list \<times> (error + proportion_table)" where
  "folders_class_proportion shuffle fsys data_path proportion i [] trajectory_files df_proportion =
     (trajectory_files, Inr df_proportion)"
| "folders_class_proportion shuffle fsys data_path proportion i (trajectory_folder # rest)
       trajectory_files df_proportion =
     (if length trajectory_files \<le> i then (trajectory_files, Inl IndexError)
      else
        (let shuffled = (case proportion of
                           Some p \<Rightarrow> shuffle i (trajectory_files ! i)
                         | None \<Rightarrow> trajectory_files ! i);
             trajectory_files' = trajectory_files[i := shuffled];
             trajectory_files_subset =
               (case proportion of
                  Some p \<Rightarrow> py_slice_to (py_int (real (length shuffled) * p)) shuffled
                | None \<Rightarrow> shuffled)
         in (case files_class_proportion fsys data_path trajectory_folder
                    trajectory_files_subset df_proportion of
               Inl e \<Rightarrow> (trajectory_files', Inl e)
             | Inr df_proportion' \<Rightarrow>
                 folders_class_proportion shuffle fsys data_path proportion (Suc i) rest
                   trajectory_files' df_proportion')))"

text \<open>
  Lines 115 to 145: the result is the caller's list of file lists after the loop, and the
  table of counts as line 145 prints it. The normalisation of line 147 follows below.
\<close>

definition plot_class_proportion ::
  "(nat \<Rightarrow> string list \<Rightarrow> string list) \<Rightarrow> filesystem \<Rightarrow> string \<Rightarrow> string list
     \<Rightarrow> string list list \<Rightarrow> real option \<Rightarrow> string list list \<times> (error + proportion_table)" where
  "plot_class_proportion shuffle fsys data_path trajectory_folders trajectory_files proportion =
     folders_class_proportion shuffle fsys data_path proportion 0 trajectory_folders
       trajectory_files Map.empty"

text \<open>
  Line 147, \<^verbatim>\<open>df_proportion.div(df_proportion.sum(axis=1), axis=0)\<close>. The frame was
  created without data, so its cells are Python objects: NaN where nothing was
  assigned, and the \<^verbatim>\<open>int\<close> of \<^verbatim>\<open>len(...)\<close> elsewhere. The row sum skips NaN. The
  division is Python's true division of each cell by the sum of its row, which raises
  ZeroDivisionError on a zero divisor, for the dividend 0 and for NaN alike; a NaN cell
  divided by a non-zero sum stays NaN. This is pandas' arithmetic on an object frame,
  taken from the library's behaviour, not from code of the module.
\<close>

definition row_sum :: "proportion_table \<Rightarrow> string \<Rightarrow> nat" where
  "row_sum df_proportion trajectory_folder =
     sum_list (map (\<lambda>c. case df_proportion (trajectory_folder, c) of None \<Rightarrow> 0 | Some n \<Rightarrow> n)
       dynamic_category)"

fun df_div :: "proportion_table \<Rightarrow> string list \<Rightarrow> error + (string \<times> npfloat list) list" where
  "df_div df_proportion [] = Inr []"
| "df_div df_proportion (trajectory_folder # rest) =
     (if row_sum df_proportion trajectory_folder = 0 then Inl ZeroDivisionError
      else
        (case df_div df_proportion rest of
           Inl e \<Rightarrow> Inl e
         | Inr rows \<Rightarrow>
             Inr ((trajectory_folder,
                   map (\<lambda>c. case df_proportion (trajectory_folder, c) of
                              None \<Rightarrow> NaN
                            | Some n \<Rightarrow> Fin (real n / real (row_sum df_proportion trajectory_folder)))
                     dynamic_category) # rows)))"

text \<open>
  Lines 115 to 147: the caller's list of file lists, and the frame of proportions handed
  to the bar chart, one row per folder in index order.
\<close>

definition class_proportion_normalised ::
  "(nat \<Rightarrow> string list \<Rightarrow> string list) \<Rightarrow> filesystem \<Rightarrow> string \<Rightarrow> string list
     \<Rightarrow> string list list \<Rightarrow> real option
     \<Rightarrow> string list list \<times> (error + (string \<times> npfloat list) list)" where
  "class_proportion_normalised shuffle fsys data_path trajectory_folders trajectory_files
       proportion =
     (case plot_class_proportion shuffle fsys data_path trajectory_folders trajectory_files
             proportion of
        (trajectory_files', res) \<Rightarrow>
          (trajectory_files',
           (case res of
              Inl e \<Rightarrow> Inl e
            | Inr df_proportion \<Rightarrow> df_div df_proportion trajectory_folders)))"

section \<open>\<^verbatim>\<open>plot_mean_speed_distribution\<close>\<close>

text \<open>
  \<^verbatim>\<open>df_lidar_box.groupby("track_token")["speed"].mean()\<close>: one entry per distinct track
  token among the rows, in sorted key order, holding the sum of the group's speeds
  divided by the group's size.
\<close>

definition groupby_mean :: "lidar_box_row list \<Rightarrow> (token \<times> npfloat) list" where
  "groupby_mean rows =
     map (\<lambda>k. (k, np_div (sum_list (map speed (filter (\<lambda>r. track_token r = k) rows)))
                        (real (length (filter (\<lambda>r. track_token r = k) rows)))))
       (sort (remdups (map track_token rows)))"

type_synonym speed_rows = "(string \<times> string \<times> npfloat) list"

fun tracks_mean_speed ::
  "(token \<rightharpoonup> string) \<Rightarrow> (token \<rightharpoonup> token) \<Rightarrow> string \<Rightarrow> (token \<times> npfloat) list \<Rightarrow> speed_rows
     \<Rightarrow> error + speed_rows" where
  "tracks_mean_speed dict_category dict_track trajectory_folder [] speeds = Inr speeds"
| "tracks_mean_speed dict_category dict_track trajectory_folder (entry # rest) speeds =
     (case resolve dict_category dict_track (fst entry) of
        Inl e \<Rightarrow> Inl e
      | Inr c \<Rightarrow>
          tracks_mean_speed dict_category dict_track trajectory_folder rest
            (speeds @ [(trajectory_folder, c, snd entry)]))"

fun files_mean_speed ::
  "filesystem \<Rightarrow> string \<Rightarrow> string \<Rightarrow> string list \<Rightarrow> speed_rows \<Rightarrow> error + speed_rows" where
  "files_mean_speed fsys data_path trajectory_folder [] speeds = Inr speeds"
| "files_mean_speed fsys data_path trajectory_folder (trajectory_file # rest) speeds =
     (if last3 trajectory_file \<noteq> ''.db''
      then files_mean_speed fsys data_path trajectory_folder rest speeds
      else
        (case fsys (data_path @ trajectory_folder @ ''/'' @ trajectory_file) of
           None \<Rightarrow> Inl DatabaseError
         | Some db \<Rightarrow>
             (case tracks_mean_speed (dict_zip (df_category db)) (dict_zip (df_track db))
                     trajectory_folder (groupby_mean (df_lidar_box db)) speeds of
                Inl e \<Rightarrow> Inl e
              | Inr speeds' \<Rightarrow>
                  files_mean_speed fsys data_path trajectory_folder rest speeds')))"

fun folders_mean_speed ::
  "filesystem \<Rightarrow> string \<Rightarrow> string list list \<Rightarrow> nat \<Rightarrow> string list \<Rightarrow> speed_rows
     \<Rightarrow> error + speed_rows" where
  "folders_mean_speed fsys data_path trajectory_files i [] speeds = Inr speeds"
| "folders_mean_speed fsys data_path trajectory_files i (trajectory_folder # rest) speeds =
     (if length trajectory_files \<le> i then Inl IndexError
      else
        (case files_mean_speed fsys data_path trajectory_folder (trajectory_files ! i) speeds of
           Inl e \<Rightarrow> Inl e
         | Inr speeds' \<Rightarrow>
             folders_mean_speed fsys data_path trajectory_files (Suc i) rest speeds'))"

text \<open>The result is the list \<^verbatim>\<open>speeds\<close> of rows [location, class, meanSpeed].\<close>

definition plot_mean_speed_distribution ::
  "filesystem \<Rightarrow> string \<Rightarrow> string list \<Rightarrow> string list list \<Rightarrow> error + speed_rows" where
  "plot_mean_speed_distribution fsys data_path trajectory_folders trajectory_files =
     folders_mean_speed fsys data_path trajectory_files 0 trajectory_folders []"

section \<open>\<^verbatim>\<open>plot_speed_distribution\<close>\<close>

text \<open>
  \<^verbatim>\<open>speed_map\<close> is an array of shape (matrix_y, matrix_x, 2): a list of rows of pairs
  (sum of speeds, count). \<^verbatim>\<open>np.zeros\<close> refuses a negative dimension with a ValueError.
\<close>

type_synonym grid = "(real \<times> real) list list"

definition np_zeros :: "int \<Rightarrow> int \<Rightarrow> error + grid" where
  "np_zeros matrix_y matrix_x =
     (if matrix_y < 0 \<or> matrix_x < 0 then Inl ValueError
      else Inr (replicate (nat matrix_y) (replicate (nat matrix_x) (0, 0))))"

text \<open>
  The cell of a row: lines 227 and 228. The offsets \<open>x - x_min\<close> and \<open>y - y_min\<close> are
  subtracted exactly here; the program rounds each to the nearest float first, which
  can move an offset that is within one rounding step of a whole number onto it.
\<close>

definition cell_of :: "real \<Rightarrow> real \<Rightarrow> lidar_box_row \<Rightarrow> int \<times> int" where
  "cell_of x_min y_min r = (py_int (row_x r - x_min), py_int (row_y r - y_min))"

text \<open>
  The body of the loop over the rows, lines 225 to 235. Both updates index the same
  cell, so an IndexError is raised by the first, before anything is written. The sum of
  a cell is added exactly here; the program rounds after every addition, so its sum
  depends on the order of the records in the last digits. The count of a cell, and
  whether a record raises, do not depend on the order in either.
\<close>

definition accumulate_row ::
  "real \<Rightarrow> real \<Rightarrow> int \<Rightarrow> int \<Rightarrow> (token \<rightharpoonup> string) \<Rightarrow> (token \<rightharpoonup> token) \<Rightarrow> lidar_box_row
     \<Rightarrow> grid \<Rightarrow> error + grid" where
  "accumulate_row x_min y_min matrix_x matrix_y dict_category dict_track r speed_map =
     (case resolve dict_category dict_track (track_token r) of
        Inl e \<Rightarrow> Inl e
      | Inr c \<Rightarrow>
          if c = ''vehicle'' then
            (case cell_of x_min y_min r of
               (cx, cy) \<Rightarrow>
                 if cx < 0 \<and> cx \<ge> matrix_x \<and> cy < 0 \<and> cy \<ge> matrix_y then Inr speed_map
                 else
                   (case np_index matrix_y cy of
                      None \<Rightarrow> Inl IndexError
                    | Some i \<Rightarrow>
                        (case np_index matrix_x cx of
                           None \<Rightarrow> Inl IndexError
                         | Some j \<Rightarrow>
                             Inr (speed_map[i := (speed_map ! i)[j :=
                                    (fst (speed_map ! i ! j) + speed r,
                                     snd (speed_map ! i ! j) + 1)]]))))
          else Inr speed_map)"

fun rows_speed ::
  "real \<Rightarrow> real \<Rightarrow> int \<Rightarrow> int \<Rightarrow> (token \<rightharpoonup> string) \<Rightarrow> (token \<rightharpoonup> token) \<Rightarrow> lidar_box_row list
     \<Rightarrow> grid \<Rightarrow> error + grid" where
  "rows_speed x_min y_min matrix_x matrix_y dict_category dict_track [] speed_map = Inr speed_map"
| "rows_speed x_min y_min matrix_x matrix_y dict_category dict_track (r # rs) speed_map =
     (case accumulate_row x_min y_min matrix_x matrix_y dict_category dict_track r speed_map of
        Inl e \<Rightarrow> Inl e
      | Inr speed_map' \<Rightarrow>
          rows_speed x_min y_min matrix_x matrix_y dict_category dict_track rs speed_map')"

text \<open>
  The loop over the files. \<open>max_iter\<close> is \<open>None\<close> when \<^verbatim>\<open>proportion\<close> is; the counter
  moves only past a file that was read, and the loop breaks once it reaches \<open>max_iter\<close>.
\<close>

fun files_speed ::
  "filesystem \<Rightarrow> string \<Rightarrow> string \<Rightarrow> real \<Rightarrow> real \<Rightarrow> int \<Rightarrow> int \<Rightarrow> int option \<Rightarrow> string list
     \<Rightarrow> int \<Rightarrow> grid \<Rightarrow> error + grid" where
  "files_speed fsys data_path trajectory_folder x_min y_min matrix_x matrix_y max_iter []
       cnt speed_map = Inr speed_map"
| "files_speed fsys data_path trajectory_folder x_min y_min matrix_x matrix_y max_iter
       (trajectory_file # rest) cnt speed_map =
     (if last3 trajectory_file \<noteq> ''.db''
      then files_speed fsys data_path trajectory_folder x_min y_min matrix_x matrix_y max_iter
             rest cnt speed_map
      else
        (case fsys (data_path @ trajectory_folder @ ''/'' @ trajectory_file) of
           None \<Rightarrow> Inl DatabaseError
         | Some db \<Rightarrow>
             (case rows_speed x_min y_min matrix_x matrix_y (dict_zip (df_category db))
                     (dict_zip (df_track db)) (df_lidar_box db) speed_map of
                Inl e \<Rightarrow> Inl e
              | Inr speed_map' \<Rightarrow>
                  (case max_iter of
                     None \<Rightarrow>
                       files_speed fsys data_path trajectory_folder x_min y_min matrix_x
                         matrix_y max_iter rest cnt speed_map'
                   | Some m \<Rightarrow>
                       if cnt + 1 \<ge> m then Inr speed_map'
                       else files_speed fsys data_path trajectory_folder x_min y_min matrix_x
                              matrix_y max_iter rest (cnt + 1) speed_map'))))"

text \<open>\<^verbatim>\<open>speed_map[:, :, 0] /= speed_map[:, :, 1]\<close>, line 243: the mean speed of each cell.\<close>

definition finalize :: "grid \<Rightarrow> npfloat list list" where
  "finalize speed_map = map (map (\<lambda>c. np_div (fst c) (snd c))) speed_map"

text \<open>
  The result is the caller's file list after the call, and channel 0 of \<^verbatim>\<open>speed_map\<close>
  after line 243 (row index first). The vertical flip of line 244 and the drawing that
  follow belong to the presentation. The array is allocated before the list is
  shuffled, so a ValueError leaves the caller's list as it was.
\<close>

definition plot_speed_distribution ::
  "(string list \<Rightarrow> string list) \<Rightarrow> filesystem \<Rightarrow> real \<times> real \<times> real \<times> real \<Rightarrow> string \<Rightarrow> string
     \<Rightarrow> string list \<Rightarrow> real option \<Rightarrow> string list \<times> (error + npfloat list list)" where
  "plot_speed_distribution shuffle fsys map_boundary data_path trajectory_folder
       trajectory_files proportion =
     (case map_boundary of
        (x_min, x_max, y_min, y_max) \<Rightarrow>
          (case np_zeros (py_int (y_max - y_min)) (py_int (x_max - x_min)) of
             Inl e \<Rightarrow> (trajectory_files, Inl e)
           | Inr speed_map \<Rightarrow>
               (shuffle trajectory_files,
                (case files_speed fsys data_path trajectory_folder x_min y_min
                        (py_int (x_max - x_min)) (py_int (y_max - y_min))
                        (map_option (\<lambda>p. py_int (real (length (shuffle trajectory_files)) * p))
                           proportion)
                        (shuffle trajectory_files) 0 speed_map of
                   Inl e \<Rightarrow> Inl e
                 | Inr speed_map' \<Rightarrow> Inr (finalize speed_map')))))"

section \<open>Concrete inputs and the notions of the statements\<close>

text \<open>
  A database with one vehicle track observed once, at (\<open>px\<close>, \<open>py\<close>) with velocity
  (3, 4, 0), so with speed 5.
\<close>

definition vehicle_db :: "real \<Rightarrow> real \<Rightarrow> motion_db" where
  "vehicle_db px py =
     \<lparr>df_category = [(''c1'', ''vehicle'')],
      df_track = [(''t1'', ''c1'')],
      df_lidar_box = [\<lparr>track_token = ''t1'', row_x = px, row_y = py,
                       row_vx = 3, row_vy = 4, row_vz = 0\<rparr>]\<rparr>"

text \<open>A database with the four dynamic categories and one vehicle track \<open>t\<close>, never observed.\<close>

definition track_db :: "token \<Rightarrow> motion_db" where
  "track_db t =
     \<lparr>df_category = [(''c1'', ''vehicle''), (''c2'', ''bicycle''), (''c3'', ''pedestrian''),
                     (''c4'', ''generic_object'')],
      df_track = [(t, ''c1'')],
      df_lidar_box = []\<rparr>"

text \<open>
  Folder \<^verbatim>\<open>f\<close> holding \<^verbatim>\<open>a.db\<close>, and holding \<^verbatim>\<open>a.db\<close> and \<^verbatim>\<open>b.db\<close>, under an empty
  \<^verbatim>\<open>data_path\<close>: every function opens \<^verbatim>\<open>data_path + trajectory_folder + "/" + trajectory_file\<close>.
\<close>

definition one_file :: "motion_db \<Rightarrow> filesystem" where
  "one_file db = (\<lambda>p. if p = ''f/a.db'' then Some db else None)"

definition two_files :: "motion_db \<Rightarrow> motion_db \<Rightarrow> filesystem" where
  "two_files da db =
     (\<lambda>p. if p = ''f/a.db'' then Some da
          else if p = ''f/b.db'' then Some db
          else None)"

text \<open>The row of \<^verbatim>\<open>df_proportion\<close> of one folder, in column order.\<close>

definition row_of :: "proportion_table \<Rightarrow> string \<Rightarrow> nat option list" where
  "row_of df_proportion trajectory_folder =
     map (\<lambda>c. df_proportion (trajectory_folder, c)) dynamic_category"

text \<open>
  The count the specification asks of \<open>countByCategory\<close>, in its words: the number of
  distinct tracks of the group (the databases of one folder) whose resolved category is
  the requested one.
\<close>

definition countByCategory_spec :: "motion_db list \<Rightarrow> string \<Rightarrow> nat" where
  "countByCategory_spec dbs c =
     length (remdups (concat (map (\<lambda>db. map fst (filter
       (\<lambda>row. dict_zip (df_category db) (snd row) = Some c) (df_track db))) dbs)))"

text \<open>
  A database has an unresolved record when the lookup
  \<^verbatim>\<open>dict_category[dict_track[track_token]]\<close> of one of its \<^verbatim>\<open>lidar_box\<close> rows raises:
  the track token is not in the track table, or its category token is not in the
  category table.
\<close>

definition unresolved_record :: "motion_db \<Rightarrow> bool" where
  "unresolved_record db =
     list_ex (\<lambda>r. resolve (dict_zip (df_category db)) (dict_zip (df_track db)) (track_token r)
                   = Inl KeyError) (df_lidar_box db)"

text \<open>
  A database with the four dynamic categories, a track whose category token is in no
  row of the category table, and a record whose track token is in no row of the track
  table.
\<close>

definition orphan_db :: motion_db where
  "orphan_db =
     \<lparr>df_category = [(''c1'', ''vehicle''), (''c2'', ''bicycle''), (''c3'', ''pedestrian''),
                     (''c4'', ''generic_object'')],
      df_track = [(''t1'', ''c9'')],
      df_lidar_box = [\<lparr>track_token = ''t8'', row_x = 5, row_y = 5,
                       row_vx = 3, row_vy = 4, row_vz = 0\<rparr>]\<rparr>"

text \<open>
  The notions of the specification of \<open>meanSpeedPerTrack\<close>, in its words: the frames
  of a track are the \<^verbatim>\<open>lidar_box\<close> rows of its database that carry its token, and its
  mean speed is the arithmetic mean of their speeds. \<open>mean_speed_rows\<close> are the rows
  [location, class, meanSpeed] expected of one database read for one folder: one for
  each track with at least one frame.
\<close>

definition track_frames :: "motion_db \<Rightarrow> token \<Rightarrow> lidar_box_row list" where
  "track_frames db t = filter (\<lambda>r. track_token r = t) (df_lidar_box db)"

definition arithmetic_mean :: "real list \<Rightarrow> real" where
  "arithmetic_mean xs = sum_list xs / real (length xs)"

definition mean_speed_rows :: "string \<Rightarrow> motion_db \<Rightarrow> (string \<times> string \<times> npfloat) set" where
  "mean_speed_rows trajectory_folder db =
     {(trajectory_folder, c, Fin (arithmetic_mean (map speed (track_frames db t)))) | t c.
        track_frames db t \<noteq> [] \<and>
        resolve (dict_zip (df_category db)) (dict_zip (df_track db)) t = Inr c}"

text \<open>
  A database with a vehicle track \<open>t1\<close> observed twice (speeds 5 and 13), a pedestrian
  track \<open>t0\<close> observed once (speed 2) and a vehicle track \<open>t3\<close> never observed.
\<close>

definition three_track_db :: motion_db where
  "three_track_db =
     \<lparr>df_category = [(''c1'', ''vehicle''), (''c3'', ''pedestrian'')],
      df_track = [(''t1'', ''c1''), (''t0'', ''c3''), (''t3'', ''c1'')],
      df_lidar_box =
        [\<lparr>track_token = ''t1'', row_x = 5, row_y = 5, row_vx = 3, row_vy = 4, row_vz = 0\<rparr>,
         \<lparr>track_token = ''t0'', row_x = 1, row_y = 1, row_vx = 0, row_vy = 0, row_vz = 2\<rparr>,
         \<lparr>track_token = ''t1'', row_x = 6, row_y = 5, row_vx = 5, row_vy = 12, row_vz = 0\<rparr>]\<rparr>"

text \<open>
  The frames of a track in a group, in the words of the specification: the rows with its
  token in all the databases of the folder.
\<close>

definition group_frames :: "motion_db list \<Rightarrow> token \<Rightarrow> lidar_box_row list" where
  "group_frames dbs t = concat (map (\<lambda>db. track_frames db t) dbs)"

text \<open>As \<open>vehicle_db\<close>, with velocity (5, 12, 0), so with speed 13.\<close>

definition fast_vehicle_db :: "real \<Rightarrow> real \<Rightarrow> motion_db" where
  "fast_vehicle_db px py =
     \<lparr>df_category = [(''c1'', ''vehicle'')],
      df_track = [(''t1'', ''c1'')],
      df_lidar_box = [\<lparr>track_token = ''t1'', row_x = px, row_y = py,
                       row_vx = 5, row_vy = 12, row_vz = 0\<rparr>]\<rparr>"

text \<open>
  As \<open>orphan_db\<close>, with a vehicle track \<open>t2\<close> beside the track of an unknown
  category, so that the row of counts is not zero.
\<close>

definition stray_db :: motion_db where
  "stray_db =
     \<lparr>df_category = [(''c1'', ''vehicle''), (''c2'', ''bicycle''), (''c3'', ''pedestrian''),
                     (''c4'', ''generic_object'')],
      df_track = [(''t1'', ''c9''), (''t2'', ''c1'')],
      df_lidar_box = [\<lparr>track_token = ''t8'', row_x = 5, row_y = 5,
                       row_vx = 3, row_vy = 4, row_vz = 0\<rparr>]\<rparr>"

text \<open>
  A number that float64 holds with at most \<open>k\<close> binary digits after the point: a whole
  multiple of \<open>1 / 2 ^ k\<close>, of at most \<open>2 ^ 52\<close> units, with \<open>k\<close> within the exponent
  range. The difference of two such
  numbers is again a multiple of \<open>1 / 2 ^ k\<close>, of at most \<open>2 ^ 53\<close> units, so float64
  subtracts them without rounding, and the exact offset of the model is the offset the
  program computes.
\<close>

definition on_grid :: "nat \<Rightarrow> real \<Rightarrow> bool" where
  "on_grid k v =
     (k \<le> 1022 \<and> v * 2 ^ k = of_int \<lfloor>v * 2 ^ k\<rfloor> \<and> \<bar>v * 2 ^ k\<bar> \<le> 2 ^ 52)"

section \<open>The effect of a record on the grid\<close>

text \<open>
  The loop body of \<^verbatim>\<open>plot_speed_distribution\<close>, taken apart for the proofs: a record
  either raises, or leaves the grid alone, or adds its speed and one to the cell it
  targets (\<open>bump\<close>). \<open>row_target\<close> is the decision, which does not depend on the grid;
  \<open>row_action\<close> pairs it with the speed, \<open>file_actions\<close> lists the actions of a file
  (a file that cannot be read is one raising action), and \<open>apply_action\<close> runs an action
  on a grid that is \<open>None\<close> once something was raised. \<open>returned\<close> forgets which
  exception a failed call raised.
\<close>

definition bump :: "nat \<Rightarrow> nat \<Rightarrow> real \<Rightarrow> grid \<Rightarrow> grid" where
  "bump i j s g = g[i := (g ! i)[j := (fst (g ! i ! j) + s, snd (g ! i ! j) + 1)]]"

definition row_target ::
  "real \<Rightarrow> real \<Rightarrow> int \<Rightarrow> int \<Rightarrow> (token \<rightharpoonup> string) \<Rightarrow> (token \<rightharpoonup> token) \<Rightarrow> lidar_box_row
     \<Rightarrow> error + (nat \<times> nat) option" where
  "row_target x_min y_min matrix_x matrix_y dict_category dict_track r =
     (case resolve dict_category dict_track (track_token r) of
        Inl e \<Rightarrow> Inl e
      | Inr c \<Rightarrow>
          if c = ''vehicle'' then
            (case cell_of x_min y_min r of
               (cx, cy) \<Rightarrow>
                 if cx < 0 \<and> cx \<ge> matrix_x \<and> cy < 0 \<and> cy \<ge> matrix_y then Inr None
                 else
                   (case np_index matrix_y cy of
                      None \<Rightarrow> Inl IndexError
                    | Some i \<Rightarrow>
                        (case np_index matrix_x cx of
                           None \<Rightarrow> Inl IndexError
                         | Some j \<Rightarrow> Inr (Some (i, j)))))
          else Inr None)"

type_synonym action = "(nat \<times> nat \<times> real) option option"

definition row_action ::
  "real \<Rightarrow> real \<Rightarrow> int \<Rightarrow> int \<Rightarrow> (token \<rightharpoonup> string) \<Rightarrow> (token \<rightharpoonup> token) \<Rightarrow> lidar_box_row
     \<Rightarrow> action" where
  "row_action x_min y_min matrix_x matrix_y dict_category dict_track r =
     (case row_target x_min y_min matrix_x matrix_y dict_category dict_track r of
        Inl e \<Rightarrow> None
      | Inr None \<Rightarrow> Some None
      | Inr (Some (i, j)) \<Rightarrow> Some (Some (i, j, speed r)))"

definition apply_action :: "action \<Rightarrow> grid option \<Rightarrow> grid option" where
  "apply_action a og =
     (case og of
        None \<Rightarrow> None
      | Some g \<Rightarrow>
          (case a of
             None \<Rightarrow> None
           | Some None \<Rightarrow> Some g
           | Some (Some (i, j, s)) \<Rightarrow> Some (bump i j s g)))"

definition file_actions ::
  "filesystem \<Rightarrow> string \<Rightarrow> string \<Rightarrow> real \<Rightarrow> real \<Rightarrow> int \<Rightarrow> int \<Rightarrow> string \<Rightarrow> action list" where
  "file_actions fsys data_path trajectory_folder x_min y_min matrix_x matrix_y trajectory_file =
     (if last3 trajectory_file \<noteq> ''.db'' then []
      else
        (case fsys (data_path @ trajectory_folder @ ''/'' @ trajectory_file) of
           None \<Rightarrow> [None]
         | Some db \<Rightarrow>
             map (row_action x_min y_min matrix_x matrix_y (dict_zip (df_category db))
                    (dict_zip (df_track db))) (df_lidar_box db)))"

definition returned :: "error + 'a \<Rightarrow> 'a option" where
  "returned res = (case res of Inl e \<Rightarrow> None | Inr v \<Rightarrow> Some v)"

text \<open>
  The invariant of the accumulated grid: sums and counts are not negative, and a cell
  with count zero has sum zero.
\<close>

definition cells_ok :: "grid \<Rightarrow> bool" where
  "cells_ok g = (\<forall>row\<in>set g. \<forall>c\<in>set row. 0 \<le> fst c \<and> 0 \<le> snd c \<and> (snd c = 0 \<longrightarrow> fst c = 0))"

section \<open>Arithmetic of the primitives\<close>

lemma sqrt_3_4_0: "sqrt (3\<^sup>2 + 4\<^sup>2 + 0\<^sup>2) = 5"
proof -
  have "sqrt (3\<^sup>2 + 4\<^sup>2 + 0\<^sup>2) = sqrt (5\<^sup>2)" by simp
  then show ?thesis by simp
qed

lemma ceiling_minus_one_real: "\<lceil>- 1 :: real\<rceil> = - 1"
  by (rule ceiling_unique) simp_all

lemma ceiling_minus_half: "\<lceil>- (1 / 2) :: real\<rceil> = 0"
  by (rule ceiling_unique) simp_all


lemma py_int_of_int: "py_int (of_int w) = w"
  by (simp add: py_int_def)

lemmas speed_eval =
  plot_speed_distribution_def np_zeros_def py_int_def last3_def one_file_def vehicle_db_def
  accumulate_row_def resolve_def getitem_def dict_zip_def cell_of_def np_index_def speed_def
  sqrt_3_4_0 finalize_def map_update np_div_def ceiling_minus_one_real

section \<open>Entries that are not databases\<close>

lemma files_trajectories_filter:
  "files_trajectories fsys dp tf files acc =
   files_trajectories fsys dp tf (filter (\<lambda>f. last3 f = ''.db'') files) acc"
  by (induction files arbitrary: acc) (auto split: option.splits sum.splits)

lemma files_class_proportion_filter:
  "files_class_proportion fsys dp tf files tbl =
   files_class_proportion fsys dp tf (filter (\<lambda>f. last3 f = ''.db'') files) tbl"
  by (induction files arbitrary: tbl) (auto split: option.splits sum.splits)

lemma files_mean_speed_filter:
  "files_mean_speed fsys dp tf files acc =
   files_mean_speed fsys dp tf (filter (\<lambda>f. last3 f = ''.db'') files) acc"
  by (induction files arbitrary: acc) (auto split: option.splits sum.splits)

lemma files_speed_filter:
  "files_speed fsys dp tf x_min y_min mx my max_iter files cnt g =
   files_speed fsys dp tf x_min y_min mx my max_iter
     (filter (\<lambda>f. last3 f = ''.db'') files) cnt g"
  by (induction files arbitrary: cnt g) (auto split: option.splits sum.splits)

lemma folders_mean_speed_filter:
  "folders_mean_speed fsys dp (map (filter (\<lambda>f. last3 f = ''.db'')) tfs) i folders acc =
   folders_mean_speed fsys dp tfs i folders acc"
proof (induction folders arbitrary: i acc)
  case Nil
  then show ?case by simp
next
  case (Cons a folders)
  show ?case
  proof (cases "length tfs \<le> i")
    case True
    then show ?thesis by simp
  next
    case False
    then have "files_mean_speed fsys dp a (map (filter (\<lambda>f. last3 f = ''.db'')) tfs ! i) acc
      = files_mean_speed fsys dp a (tfs ! i) acc"
      using files_mean_speed_filter[of fsys dp a "tfs ! i" acc] by simp
    with False Cons.IH show ?thesis by (simp split: sum.splits)
  qed
qed

lemma folders_class_proportion_filter:
  "snd (folders_class_proportion shs fsys dp None i folders
          (map (filter (\<lambda>f. last3 f = ''.db'')) tfs) tbl) =
   snd (folders_class_proportion shs fsys dp None i folders tfs tbl)"
proof (induction folders arbitrary: i tbl)
  case Nil
  then show ?case by simp
next
  case (Cons a folders)
  show ?case
  proof (cases "length tfs \<le> i")
    case True
    then show ?thesis by simp
  next
    case False
    then have "files_class_proportion fsys dp a
                 (map (filter (\<lambda>f. last3 f = ''.db'')) tfs ! i) tbl
      = files_class_proportion fsys dp a (tfs ! i) tbl"
      using files_class_proportion_filter[of fsys dp a "tfs ! i" tbl] by simp
    moreover have "(map (filter (\<lambda>f. last3 f = ''.db'')) tfs)
                     [i := filter (\<lambda>f. last3 f = ''.db'') (tfs ! i)]
                   = map (filter (\<lambda>f. last3 f = ''.db'')) tfs"
      by (metis list_update_id map_update)
    ultimately show ?thesis using False Cons.IH by (simp add: Let_def split: sum.splits)
  qed
qed

text \<open>
  C10 (as stated). With a \<^verbatim>\<open>proportion\<close> an entry that is no database does change the
  output: it is counted in \<^verbatim>\<open>len(trajectory_files)\<close> and takes a place in the sample.
  \<^verbatim>\<open>plot_trajectories\<close> with the proportion 0.5 (the shuffle keeping the order) reads
  \<^verbatim>\<open>a.db\<close> on the list \<^verbatim>\<open>a.db, x.txt\<close> and yields its row, and reads nothing on the
  list \<^verbatim>\<open>a.db\<close> alone.
\<close>

theorem C10_sample_counts_other_entries_counterexample:
  "snd (plot_trajectories (\<lambda>xs. xs) (one_file (vehicle_db 5 5)) [] ''f''
          [''a.db'', ''x.txt''] (Some (1 / 2))) = Inr [(5, 5, ''vehicle'')]
   \<and> snd (plot_trajectories (\<lambda>xs. xs) (one_file (vehicle_db 5 5)) [] ''f''
          [''a.db''] (Some (1 / 2))) = Inr []"
  by (simp add: plot_trajectories_def py_int_def py_slice_to_def last3_def one_file_def
      vehicle_db_def resolve_def getitem_def dict_zip_def)

text \<open>
  C10 (amended). In each of the four loops over a file list, the entries whose last
  three characters are not \<^verbatim>\<open>.db\<close> are skipped: the loop returns what it returns on
  the list without them, whatever the accumulator, the counter and the limit are, so
  such an entry adds nothing and raises nothing. Without sampling (\<^verbatim>\<open>proportion\<close> is
  \<open>None\<close>) the same holds of every operation as a whole: its output is its output on
  the lists without these entries, for \<^verbatim>\<open>plot_speed_distribution\<close> when the shuffle
  leaves the databases in the order in which it leaves them on the list without the
  other entries.
\<close>

theorem C10_non_db_entries_are_skipped:
  "files_trajectories fsys dp tf files acc =
     files_trajectories fsys dp tf (filter (\<lambda>f. last3 f = ''.db'') files) acc
   \<and> files_class_proportion fsys dp tf files tbl =
     files_class_proportion fsys dp tf (filter (\<lambda>f. last3 f = ''.db'') files) tbl
   \<and> files_mean_speed fsys dp tf files speeds =
     files_mean_speed fsys dp tf (filter (\<lambda>f. last3 f = ''.db'') files) speeds
   \<and> files_speed fsys dp tf x_min y_min mx my max_iter files cnt g =
     files_speed fsys dp tf x_min y_min mx my max_iter
       (filter (\<lambda>f. last3 f = ''.db'') files) cnt g
   \<and> plot_mean_speed_distribution fsys dp folders tfs =
     plot_mean_speed_distribution fsys dp folders (map (filter (\<lambda>f. last3 f = ''.db'')) tfs)
   \<and> snd (plot_trajectories sh fsys dp tf files None) =
     snd (plot_trajectories sh fsys dp tf (filter (\<lambda>f. last3 f = ''.db'') files) None)
   \<and> snd (plot_class_proportion shs fsys dp folders tfs None) =
     snd (plot_class_proportion shs fsys dp folders
            (map (filter (\<lambda>f. last3 f = ''.db'')) tfs) None)
   \<and> snd (class_proportion_normalised shs fsys dp folders tfs None) =
     snd (class_proportion_normalised shs fsys dp folders
            (map (filter (\<lambda>f. last3 f = ''.db'')) tfs) None)
   \<and> (filter (\<lambda>f. last3 f = ''.db'') (sh files) = sh' (filter (\<lambda>f. last3 f = ''.db'') files)
        \<longrightarrow> snd (plot_speed_distribution sh fsys map_boundary dp tf files None) =
            snd (plot_speed_distribution sh' fsys map_boundary dp tf
                   (filter (\<lambda>f. last3 f = ''.db'') files) None))"
proof (intro conjI impI)
  show "files_trajectories fsys dp tf files acc =
     files_trajectories fsys dp tf (filter (\<lambda>f. last3 f = ''.db'') files) acc"
    by (rule files_trajectories_filter)
  show "files_class_proportion fsys dp tf files tbl =
     files_class_proportion fsys dp tf (filter (\<lambda>f. last3 f = ''.db'') files) tbl"
    by (rule files_class_proportion_filter)
  show "files_mean_speed fsys dp tf files speeds =
     files_mean_speed fsys dp tf (filter (\<lambda>f. last3 f = ''.db'') files) speeds"
    by (rule files_mean_speed_filter)
  show "files_speed fsys dp tf x_min y_min mx my max_iter files cnt g =
     files_speed fsys dp tf x_min y_min mx my max_iter
       (filter (\<lambda>f. last3 f = ''.db'') files) cnt g"
    by (rule files_speed_filter)
  show "plot_mean_speed_distribution fsys dp folders tfs =
     plot_mean_speed_distribution fsys dp folders (map (filter (\<lambda>f. last3 f = ''.db'')) tfs)"
    by (simp add: plot_mean_speed_distribution_def folders_mean_speed_filter)
  show "snd (plot_trajectories sh fsys dp tf files None) =
     snd (plot_trajectories sh fsys dp tf (filter (\<lambda>f. last3 f = ''.db'') files) None)"
    using files_trajectories_filter[of fsys dp tf files "[]"]
    by (simp add: plot_trajectories_def)
  show counts: "snd (plot_class_proportion shs fsys dp folders tfs None) =
     snd (plot_class_proportion shs fsys dp folders
            (map (filter (\<lambda>f. last3 f = ''.db'')) tfs) None)"
    by (simp add: plot_class_proportion_def folders_class_proportion_filter)
  then show "snd (class_proportion_normalised shs fsys dp folders tfs None) =
     snd (class_proportion_normalised shs fsys dp folders
            (map (filter (\<lambda>f. last3 f = ''.db'')) tfs) None)"
    by (simp add: class_proportion_normalised_def case_prod_beta)
next
  assume same: "filter (\<lambda>f. last3 f = ''.db'') (sh files) =
                sh' (filter (\<lambda>f. last3 f = ''.db'') files)"
  obtain x_min' x_max' y_min' y_max' where
    mb: "map_boundary = (x_min', x_max', y_min', y_max')"
    by (cases map_boundary) auto
  have "files_speed fsys dp tf x_min' y_min' (py_int (x_max' - x_min'))
          (py_int (y_max' - y_min')) None (sh files) 0 g0 =
        files_speed fsys dp tf x_min' y_min' (py_int (x_max' - x_min'))
          (py_int (y_max' - y_min')) None (sh' (filter (\<lambda>f. last3 f = ''.db'') files)) 0 g0"
    for g0
    using files_speed_filter[of fsys dp tf x_min' y_min' "py_int (x_max' - x_min')"
        "py_int (y_max' - y_min')" None "sh files" 0 g0] same
    by simp
  then show "snd (plot_speed_distribution sh fsys map_boundary dp tf files None) =
            snd (plot_speed_distribution sh' fsys map_boundary dp tf
                   (filter (\<lambda>f. last3 f = ''.db'') files) None)"
    by (simp add: plot_speed_distribution_def mb split: sum.splits)
qed

theorem C10_non_db_entries_are_skipped_witness:
  "files_trajectories (one_file (vehicle_db 5 5)) [] ''f'' [''notes.txt'', ''a.db'', ''db''] [] =
     files_trajectories (one_file (vehicle_db 5 5)) [] ''f'' [''a.db''] []
   \<and> files_trajectories (one_file (vehicle_db 5 5)) [] ''f'' [''a.db''] [] =
     Inr [(5, 5, ''vehicle'')]
   \<and> plot_mean_speed_distribution (one_file (vehicle_db 5 5)) [] [''f'']
       [[''notes.txt'', ''a.db'', ''db'']] =
     plot_mean_speed_distribution (one_file (vehicle_db 5 5)) [] [''f''] [[''a.db'']]
   \<and> filter (\<lambda>f. last3 f = ''.db'') (rev [''notes.txt'', ''a.db'', ''db''])
       = rev (filter (\<lambda>f. last3 f = ''.db'') [''notes.txt'', ''a.db'', ''db''])
   \<and> snd (plot_speed_distribution rev (one_file (vehicle_db 5 5)) (0, 10, 0, 10) [] ''f''
            [''notes.txt'', ''a.db'', ''db''] None) =
     snd (plot_speed_distribution rev (one_file (vehicle_db 5 5)) (0, 10, 0, 10) [] ''f''
            [''a.db''] None)"
  using C10_non_db_entries_are_skipped [where fsys = "one_file (vehicle_db 5 5)" and dp = "[]"
      and tf = "''f''" and files = "[''notes.txt'', ''a.db'', ''db'']" and acc = "[]"
      and tbl = Map.empty and speeds = "[]" and x_min = 0 and y_min = 0 and mx = 0 and my = 0
      and max_iter = None and cnt = 0 and g = "[]" and folders = "[''f'']"
      and tfs = "[[''notes.txt'', ''a.db'', ''db'']]" and sh = rev and sh' = rev
      and shs = "\<lambda>i xs. xs" and map_boundary = "(0, 10, 0, 10)"]
  by (simp add: last3_def one_file_def vehicle_db_def resolve_def getitem_def dict_zip_def)

section \<open>The speed grid\<close>

text \<open>
  C1. The bounds test of line 229 is a conjunction that no cell satisfies, so nothing
  is dropped. With the boundary (0, 10, 0, 10), a vehicle record at \<open>x = -1\<close> has
  \<open>cx = -1\<close>, outside \<open>0 \<le> cx < 10\<close>, and is accumulated all the same: the index
  wraps to the last column, and cell [5][9] gets the mean speed 5. A vehicle record at
  \<open>x = 10\<close> has \<open>cx = 10\<close> and aborts the call with an IndexError instead of being
  dropped.
\<close>

theorem C1_out_of_range_record_is_not_dropped:
  "cell_of 0 0 \<lparr>track_token = ''t1'', row_x = - 1, row_y = 5,
                 row_vx = 3, row_vy = 4, row_vz = 0\<rparr> = (- 1, 5)
   \<and> snd (plot_speed_distribution (\<lambda>xs. xs) (one_file (vehicle_db (- 1) 5)) (0, 10, 0, 10)
         [] ''f'' [''a.db''] None)
     = Inr ((replicate 10 (replicate 10 NaN))[5 := (replicate 10 NaN)[9 := Fin 5]])
   \<and> snd (plot_speed_distribution (\<lambda>xs. xs) (one_file (vehicle_db 10 5)) (0, 10, 0, 10)
         [] ''f'' [''a.db''] None)
     = Inl IndexError"
  by (simp add: speed_eval)

section \<open>Counts per category\<close>

text \<open>
  C3. The count of a category is assigned, not added, for every file of the folder, so
  the row of a folder holds the counts of the last database read. For folder \<^verbatim>\<open>f\<close>
  with two databases of one vehicle track each (\<open>t1\<close> and \<open>t2\<close>), the row is
  1, 0, 0, 0, while the group has two distinct vehicle tracks.
\<close>

theorem C3_counts_of_last_file_only:
  "(case snd (plot_class_proportion sh (two_files (track_db ''t1'') (track_db ''t2'')) []
               [''f''] [[''a.db'', ''b.db'']] None) of
      Inl e \<Rightarrow> None
    | Inr df_proportion \<Rightarrow> Some (row_of df_proportion ''f''))
     = Some [Some 1, Some 0, Some 0, Some 0]
   \<and> countByCategory_spec [track_db ''t1'', track_db ''t2''] ''vehicle'' = 2"
  by (simp add: plot_class_proportion_def two_files_def track_db_def last3_def
      dynamic_category_def getitem_def dict_zip_def row_of_def countByCategory_spec_def)

section \<open>Grid dimensions and cells\<close>




text \<open>
  C5 (as stated). The cell is not the pair of floors, and a record just below the upper
  bounds need not have the last cell. With \<open>x_min = 0\<close>, a record at \<open>x = -1/2\<close> has
  \<open>cx = int(-0.5) = 0\<close>, while the floor is \<open>-1\<close>. With the boundary
  (0, 10.5, 0, 10.5) the grid is 10 by 10 and its last cell is (9, 9), but the record at
  (10.5 - 0.125, 10.5 - 0.125) has cell (10, 10), and the call raises IndexError.
\<close>

theorem C5_cell_is_not_floor_counterexample:
  "cell_of 0 0 \<lparr>track_token = ''t1'', row_x = - (1 / 2), row_y = 0,
                 row_vx = 3, row_vy = 4, row_vz = 0\<rparr>
     \<noteq> (\<lfloor>- (1 / 2) - 0 :: real\<rfloor>, \<lfloor>0 - 0 :: real\<rfloor>)
   \<and> (py_int (21 / 2 - 0) - 1, py_int (21 / 2 - 0) - 1) = (9, 9)
   \<and> cell_of 0 0 \<lparr>track_token = ''t1'', row_x = 21 / 2 - 1 / 8, row_y = 21 / 2 - 1 / 8,
                   row_vx = 3, row_vy = 4, row_vz = 0\<rparr> = (10, 10)
   \<and> snd (plot_speed_distribution (\<lambda>xs. xs)
          (one_file (vehicle_db (21 / 2 - 1 / 8) (21 / 2 - 1 / 8)))
          (0, 21 / 2, 0, 21 / 2) [] ''f'' [''a.db''] None) = Inl IndexError"
  by (simp add: speed_eval ceiling_minus_half)

text \<open>
  C5 (amended). The cell of a record is (int(dx), int(dy)) of its offsets
  \<open>dx = x - x_min\<close> and \<open>dy = y - y_min\<close>, where int truncates toward zero: the floor of
  an offset that is not negative, and minus the floor of the negated offset otherwise.
  A record at (x_min, y_min) has cell (0, 0). A record whose offsets lie in
  [matrix_x - 1, matrix_x) and [matrix_y - 1, matrix_y) has the last cell
  (matrix_x - 1, matrix_y - 1). The two general statements are made for coordinates and
  bounds on a common binary grid, where the subtractions of lines 203, 204, 227 and 228
  are exact. With the boundary (0, 10, 0, 10) and one vehicle record at (5, 5) with
  velocity (3, 4, 0), the grid after line 243 holds 5 at [5][5] and NaN in every other
  cell.
\<close>

theorem C5_cell_of_record:
  "(row_x r = x_min \<and> row_y r = y_min \<longrightarrow> cell_of x_min y_min r = (0, 0))
   \<and> (on_grid k (row_x r) \<and> on_grid k x_min \<and> on_grid k (row_y r) \<and> on_grid k y_min \<longrightarrow>
        fst (cell_of x_min y_min r) =
          (if 0 \<le> row_x r - x_min then \<lfloor>row_x r - x_min\<rfloor> else - \<lfloor>x_min - row_x r\<rfloor>)
        \<and> snd (cell_of x_min y_min r) =
          (if 0 \<le> row_y r - y_min then \<lfloor>row_y r - y_min\<rfloor> else - \<lfloor>y_min - row_y r\<rfloor>))
   \<and> (on_grid k (row_x r) \<and> on_grid k x_min \<and> on_grid k x_max
        \<and> on_grid k (row_y r) \<and> on_grid k y_min \<and> on_grid k y_max
        \<and> 0 < py_int (x_max - x_min) \<and> 0 < py_int (y_max - y_min)
        \<and> of_int (py_int (x_max - x_min)) - 1 \<le> row_x r - x_min
        \<and> row_x r - x_min < of_int (py_int (x_max - x_min))
        \<and> of_int (py_int (y_max - y_min)) - 1 \<le> row_y r - y_min
        \<and> row_y r - y_min < of_int (py_int (y_max - y_min)) \<longrightarrow>
      cell_of x_min y_min r = (py_int (x_max - x_min) - 1, py_int (y_max - y_min) - 1))
   \<and> snd (plot_speed_distribution (\<lambda>xs. xs) (one_file (vehicle_db 5 5)) (0, 10, 0, 10)
         [] ''f'' [''a.db''] None)
     = Inr ((replicate 10 (replicate 10 NaN))[5 := (replicate 10 NaN)[5 := Fin 5]])"
proof (intro conjI impI)
  assume "row_x r = x_min \<and> row_y r = y_min"
  then show "cell_of x_min y_min r = (0, 0)"
    by (simp add: cell_of_def py_int_def)
next
  have trunc: "py_int d = (if 0 \<le> d then \<lfloor>d\<rfloor> else - \<lfloor>- d\<rfloor>)" for d
    by (simp add: py_int_def ceiling_def)
  show "fst (cell_of x_min y_min r) =
      (if 0 \<le> row_x r - x_min then \<lfloor>row_x r - x_min\<rfloor> else - \<lfloor>x_min - row_x r\<rfloor>)"
    using trunc[of "row_x r - x_min"] by (simp add: cell_of_def)
  show "snd (cell_of x_min y_min r) =
      (if 0 \<le> row_y r - y_min then \<lfloor>row_y r - y_min\<rfloor> else - \<lfloor>y_min - row_y r\<rfloor>)"
    using trunc[of "row_y r - y_min"] by (simp add: cell_of_def)
next
  assume a: "on_grid k (row_x r) \<and> on_grid k x_min \<and> on_grid k x_max
        \<and> on_grid k (row_y r) \<and> on_grid k y_min \<and> on_grid k y_max
        \<and> 0 < py_int (x_max - x_min) \<and> 0 < py_int (y_max - y_min)
        \<and> of_int (py_int (x_max - x_min)) - 1 \<le> row_x r - x_min
        \<and> row_x r - x_min < of_int (py_int (x_max - x_min))
        \<and> of_int (py_int (y_max - y_min)) - 1 \<le> row_y r - y_min
        \<and> row_y r - y_min < of_int (py_int (y_max - y_min))"
  have last: "py_int d = m - 1" if "0 < m" "of_int m - 1 \<le> d" "d < of_int m" for d m
  proof -
    from that have "0 \<le> d" by linarith
    moreover from that have "\<lfloor>d\<rfloor> = m - 1" by (simp add: floor_eq_iff)
    ultimately show ?thesis by (simp add: py_int_def)
  qed
  from a show "cell_of x_min y_min r = (py_int (x_max - x_min) - 1, py_int (y_max - y_min) - 1)"
    by (simp add: cell_of_def last)
next
  show "snd (plot_speed_distribution (\<lambda>xs. xs) (one_file (vehicle_db 5 5)) (0, 10, 0, 10)
         [] ''f'' [''a.db''] None)
     = Inr ((replicate 10 (replicate 10 NaN))[5 := (replicate 10 NaN)[5 := Fin 5]])"
    by (simp add: speed_eval)
qed

theorem C5_cell_of_record_witness:
  "on_grid 1 (- (1 / 2)) \<and> on_grid 1 (19 / 2) \<and> on_grid 1 0 \<and> on_grid 1 10
   \<and> on_grid 1 2 \<and> on_grid 1 3
   \<and> cell_of 0 0 \<lparr>track_token = ''t1'', row_x = - (1 / 2), row_y = 19 / 2,
                 row_vx = 3, row_vy = 4, row_vz = 0\<rparr> = (0, 9)
   \<and> py_int (10 - 0) = 10
   \<and> cell_of 0 0 \<lparr>track_token = ''t1'', row_x = 19 / 2, row_y = 19 / 2,
                   row_vx = 3, row_vy = 4, row_vz = 0\<rparr> = (9, 9)
   \<and> cell_of 2 3 \<lparr>track_token = ''t1'', row_x = 2, row_y = 3,
                   row_vx = 3, row_vy = 4, row_vz = 0\<rparr> = (0, 0)"
proof -
  have grid: "on_grid 1 (- (1 / 2))" "on_grid 1 (19 / 2)" "on_grid 1 0" "on_grid 1 10"
    "on_grid 1 2" "on_grid 1 3"
    by (simp_all add: on_grid_def)
  show ?thesis
    using
      C5_cell_of_record [where x_min = 0 and y_min = 0 and x_max = 10 and y_max = 10
        and k = 1
        and r = "\<lparr>track_token = ''t1'', row_x = - (1 / 2), row_y = 19 / 2,
                   row_vx = 3, row_vy = 4, row_vz = 0\<rparr>"]
      C5_cell_of_record [where x_min = 0 and y_min = 0 and x_max = 10 and y_max = 10
        and k = 1
        and r = "\<lparr>track_token = ''t1'', row_x = 19 / 2, row_y = 19 / 2,
                   row_vx = 3, row_vy = 4, row_vz = 0\<rparr>"]
      C5_cell_of_record [where x_min = 2 and y_min = 3 and x_max = 10 and y_max = 10
        and k = 1
        and r = "\<lparr>track_token = ''t1'', row_x = 2, row_y = 3,
                   row_vx = 3, row_vy = 4, row_vz = 0\<rparr>"]
      grid
    by (simp add: py_int_def prod_eq_iff)
qed




section \<open>The caller's file lists\<close>







section \<open>Referential integrity\<close>

lemma resolve_error: "resolve dc dt tok = Inl e \<Longrightarrow> e = KeyError"
  by (auto simp: resolve_def getitem_def split: sum.splits option.splits)




lemma set_fst_groupby_mean: "fst ` set (groupby_mean rows) = track_token ` set rows"
  by (simp add: groupby_mean_def image_image)


lemma tracks_mean_speed_error: "tracks_mean_speed dc dt tf entries acc = Inl e \<Longrightarrow> e = KeyError"
  by (induction entries arbitrary: acc) (auto split: sum.splits dest: resolve_error)


lemma files_mean_speed_error:
  "files_mean_speed fsys dp tf files acc = Inl e \<Longrightarrow> e = KeyError \<or> e = DatabaseError"
  by (induction files arbitrary: acc)
     (auto split: sum.splits option.splits if_splits dest: tracks_mean_speed_error)














section \<open>Mean speed per track\<close>

lemma track_frames_nonempty: "track_frames db t \<noteq> [] \<longleftrightarrow> t \<in> track_token ` set (df_lidar_box db)"
  by (auto simp: track_frames_def filter_empty_conv)

lemma groupby_mean_set:
  "set (groupby_mean (df_lidar_box (db :: motion_db))) =
   (\<lambda>t. (t, Fin (arithmetic_mean (map speed (track_frames db t))))) ` {t. track_frames db t \<noteq> []}"
proof -
  have "np_div (sum_list (map speed (track_frames db t))) (real (length (track_frames db t)))
        = Fin (arithmetic_mean (map speed (track_frames db t)))"
    if "track_frames db t \<noteq> []" for t
    using that by (simp add: np_div_def arithmetic_mean_def)
  then show ?thesis
    unfolding groupby_mean_def track_frames_nonempty
    by (auto simp: track_frames_def[symmetric] image_iff)
qed

lemma tracks_mean_speed_set:
  "tracks_mean_speed dc dt tf entries acc = Inr out \<Longrightarrow>
   (x \<in> set out \<longleftrightarrow> x \<in> set acc \<or>
      (\<exists>e\<in>set entries. \<exists>c. resolve dc dt (fst e) = Inr c \<and> x = (tf, c, snd e)))"
proof (induction entries arbitrary: acc)
  case Nil
  then show ?case by auto
next
  case (Cons e entries)
  from Cons.prems obtain c where c: "resolve dc dt (fst e) = Inr c"
    and rest: "tracks_mean_speed dc dt tf entries (acc @ [(tf, c, snd e)]) = Inr out"
    by (auto split: sum.splits)
  from Cons.IH[OF rest] c show ?case by auto
qed

lemma tracks_mean_speed_resolved:
  "tracks_mean_speed dc dt tf entries acc = Inr out \<Longrightarrow>
   \<forall>e\<in>set entries. \<exists>c. resolve dc dt (fst e) = Inr c"
  by (induction entries arbitrary: acc) (auto split: sum.splits)

lemma db_rows_set:
  assumes "tracks_mean_speed (dict_zip (df_category (db :: motion_db))) (dict_zip (df_track db)) tf
             (groupby_mean (df_lidar_box db)) acc = Inr out"
  shows "set out = set acc \<union> mean_speed_rows tf db"
proof (intro set_eqI)
  fix x
  show "x \<in> set out \<longleftrightarrow> x \<in> set acc \<union> mean_speed_rows tf db"
    unfolding tracks_mean_speed_set[OF assms, of x] groupby_mean_set mean_speed_rows_def
    by auto
qed

lemma db_rows_resolved:
  assumes "tracks_mean_speed (dict_zip (df_category (db :: motion_db))) (dict_zip (df_track db)) tf
             (groupby_mean (df_lidar_box db)) acc = Inr out"
    and "r \<in> set (df_lidar_box db)"
  shows "\<exists>c. resolve (dict_zip (df_category db)) (dict_zip (df_track db)) (track_token r) = Inr c"
proof -
  from assms(2) have "track_frames db (track_token r) \<noteq> []"
    by (auto simp: track_frames_nonempty)
  then have "(track_token r, Fin (arithmetic_mean (map speed (track_frames db (track_token r)))))
       \<in> set (groupby_mean (df_lidar_box db))"
    unfolding groupby_mean_set by blast
  with tracks_mean_speed_resolved[OF assms(1)] show ?thesis by fastforce
qed

lemma files_mean_speed_set:
  "files_mean_speed fsys dp tf files acc = Inr out \<Longrightarrow>
   (x \<in> set out \<longleftrightarrow> x \<in> set acc \<or>
      (\<exists>f\<in>set files. last3 f = ''.db'' \<and>
         (\<exists>db. fsys (dp @ tf @ ''/'' @ f) = Some db \<and> x \<in> mean_speed_rows tf db)))"
proof (induction files arbitrary: acc)
  case Nil
  then show ?case by auto
next
  case (Cons f files)
  show ?case
  proof (cases "last3 f = ''.db''")
    case False
    with Cons show ?thesis by auto
  next
    case True
    with Cons.prems obtain db acc' where db: "fsys (dp @ tf @ ''/'' @ f) = Some db"
      and step: "tracks_mean_speed (dict_zip (df_category db)) (dict_zip (df_track db)) tf
             (groupby_mean (df_lidar_box db)) acc = Inr acc'"
      and rest: "files_mean_speed fsys dp tf files acc' = Inr out"
      by (auto split: option.splits sum.splits)
    from Cons.IH[OF rest] db_rows_set[OF step] db True show ?thesis by auto
  qed
qed

lemma files_mean_speed_resolved:
  "files_mean_speed fsys dp tf files acc = Inr out \<Longrightarrow> f \<in> set files \<Longrightarrow> last3 f = ''.db'' \<Longrightarrow>
   fsys (dp @ tf @ ''/'' @ f) = Some db \<Longrightarrow> r \<in> set (df_lidar_box db) \<Longrightarrow>
   \<exists>c. resolve (dict_zip (df_category db)) (dict_zip (df_track db)) (track_token r) = Inr c"
proof (induction files arbitrary: acc)
  case Nil
  then show ?case by simp
next
  case (Cons g files)
  show ?case
  proof (cases "last3 g = ''.db''")
    case False
    with Cons show ?thesis by auto
  next
    case True
    with Cons.prems(1) obtain dbg acc' where dbg: "fsys (dp @ tf @ ''/'' @ g) = Some dbg"
      and step: "tracks_mean_speed (dict_zip (df_category dbg)) (dict_zip (df_track dbg)) tf
             (groupby_mean (df_lidar_box dbg)) acc = Inr acc'"
      and rest: "files_mean_speed fsys dp tf files acc' = Inr out"
      by (auto split: option.splits sum.splits)
    show ?thesis
    proof (cases "f = g")
      case True
      with dbg Cons.prems(4) have "dbg = db" by simp
      with db_rows_resolved[OF step] Cons.prems(5) show ?thesis by simp
    next
      case False
      with Cons.prems(2) have "f \<in> set files" by simp
      from Cons.IH[OF rest this Cons.prems(3,4,5)] show ?thesis .
    qed
  qed
qed

lemma folders_mean_speed_length:
  "folders_mean_speed fsys dp tfs i folders acc = Inr out \<Longrightarrow> folders \<noteq> [] \<Longrightarrow>
   i + length folders \<le> length tfs"
proof (induction folders arbitrary: i acc)
  case Nil
  then show ?case by simp
next
  case (Cons a folders)
  from Cons.prems(1) have lt: "i < length tfs" by (auto split: if_splits)
  with Cons.prems(1) obtain acc' where
    rest: "folders_mean_speed fsys dp tfs (Suc i) folders acc' = Inr out"
    by (auto split: sum.splits)
  show ?case
  proof (cases "folders = []")
    case True
    with lt show ?thesis by simp
  next
    case False
    from Cons.IH[OF rest False] show ?thesis by simp
  qed
qed

lemma folders_mean_speed_set:
  "folders_mean_speed fsys dp tfs i folders acc = Inr out \<Longrightarrow>
   (x \<in> set out \<longleftrightarrow> x \<in> set acc \<or>
      (\<exists>k<length folders. \<exists>f\<in>set (tfs ! (i + k)). last3 f = ''.db'' \<and>
         (\<exists>db. fsys (dp @ folders ! k @ ''/'' @ f) = Some db
               \<and> x \<in> mean_speed_rows (folders ! k) db)))"
proof (induction folders arbitrary: i acc)
  case Nil
  then show ?case by auto
next
  case (Cons a folders)
  from Cons.prems have lt: "i < length tfs" by (auto split: if_splits)
  with Cons.prems obtain acc' where
    step: "files_mean_speed fsys dp a (tfs ! i) acc = Inr acc'"
    and rest: "folders_mean_speed fsys dp tfs (Suc i) folders acc' = Inr out"
    by (auto split: sum.splits)
  let ?P = "\<lambda>b k. \<exists>f\<in>set (tfs ! (i + k)). last3 f = ''.db'' \<and>
         (\<exists>db. fsys (dp @ b k @ ''/'' @ f) = Some db \<and> x \<in> mean_speed_rows (b k) db)"
  have split: "(\<exists>k<length (a # folders). ?P (\<lambda>k. (a # folders) ! k) k)
      \<longleftrightarrow> ?P (\<lambda>k. a) 0 \<or> (\<exists>k<length folders. ?P (\<lambda>k. folders ! (k - 1)) (Suc k))"
    (is "?L \<longleftrightarrow> ?R")
  proof
    assume ?L
    then obtain k where k: "k < length (a # folders)" "?P (\<lambda>k. (a # folders) ! k) k" by blast
    show ?R
    proof (cases k)
      case 0
      with k show ?thesis by simp
    next
      case (Suc k')
      with k have "k' < length folders" "?P (\<lambda>k. folders ! (k - 1)) (Suc k')" by simp_all
      then show ?thesis by blast
    qed
  next
    assume ?R
    then show ?L
    proof
      assume "?P (\<lambda>k. a) 0"
      then have "?P (\<lambda>k. (a # folders) ! k) 0" by simp
      then show ?L by (intro exI[of _ 0]) simp
    next
      assume "\<exists>k<length folders. ?P (\<lambda>k. folders ! (k - 1)) (Suc k)"
      then obtain k where k: "k < length folders" "?P (\<lambda>k. folders ! (k - 1)) (Suc k)" by blast
      then have "?P (\<lambda>k. (a # folders) ! k) (Suc k)" by simp
      with k(1) show ?L by (intro exI[of _ "Suc k"]) simp
    qed
  qed
  from Cons.IH[OF rest] files_mean_speed_set[OF step, of x] split
  show ?case by simp
qed


lemma folders_mean_speed_resolved:
  "folders_mean_speed fsys dp tfs i folders acc = Inr out \<Longrightarrow> k < length folders \<Longrightarrow>
   f \<in> set (tfs ! (i + k)) \<Longrightarrow> last3 f = ''.db'' \<Longrightarrow>
   fsys (dp @ folders ! k @ ''/'' @ f) = Some db \<Longrightarrow> r \<in> set (df_lidar_box db) \<Longrightarrow>
   \<exists>c. resolve (dict_zip (df_category db)) (dict_zip (df_track db)) (track_token r) = Inr c"
proof (induction folders arbitrary: i k acc)
  case Nil
  then show ?case by simp
next
  case (Cons a folders)
  from Cons.prems(1) have lt: "i < length tfs" by (auto split: if_splits)
  with Cons.prems(1) obtain acc' where
    step: "files_mean_speed fsys dp a (tfs ! i) acc = Inr acc'"
    and rest: "folders_mean_speed fsys dp tfs (Suc i) folders acc' = Inr out"
    by (auto split: sum.splits)
  show ?case
  proof (cases k)
    case 0
    with Cons.prems files_mean_speed_resolved[OF step, of f db r] show ?thesis by simp
  next
    case (Suc k')
    with Cons.prems Cons.IH[OF rest, of k'] show ?thesis by simp
  qed
qed

lemma tracks_mean_speed_total:
  "\<forall>e\<in>set entries. \<exists>c. resolve dc dt (fst e) = Inr c \<Longrightarrow>
   \<exists>out. tracks_mean_speed dc dt tf entries acc = Inr out"
  by (induction entries arbitrary: acc) auto

lemma resolved_entries:
  assumes "\<not> unresolved_record db"
  shows "\<forall>e\<in>set (groupby_mean (df_lidar_box db)).
           \<exists>c. resolve (dict_zip (df_category db)) (dict_zip (df_track db)) (fst e) = Inr c"
proof
  fix e assume "e \<in> set (groupby_mean (df_lidar_box db))"
  then have "fst e \<in> track_token ` set (df_lidar_box db)"
    using set_fst_groupby_mean[of "df_lidar_box db"] by blast
  then obtain r where r: "r \<in> set (df_lidar_box db)" "fst e = track_token r" by auto
  show "\<exists>c. resolve (dict_zip (df_category db)) (dict_zip (df_track db)) (fst e) = Inr c"
  proof (cases "resolve (dict_zip (df_category db)) (dict_zip (df_track db)) (fst e)")
    case (Inl err)
    with resolve_error[OF Inl] r assms show ?thesis
      by (auto simp: unresolved_record_def list_ex_iff)
  next
    case (Inr c)
    then show ?thesis by simp
  qed
qed

lemma files_mean_speed_total:
  "\<forall>f\<in>set files. last3 f = ''.db'' \<longrightarrow>
      (\<exists>db. fsys (dp @ tf @ ''/'' @ f) = Some db \<and> \<not> unresolved_record db) \<Longrightarrow>
   \<exists>out. files_mean_speed fsys dp tf files acc = Inr out"
proof (induction files arbitrary: acc)
  case Nil
  then show ?case by simp
next
  case (Cons f files)
  show ?case
  proof (cases "last3 f = ''.db''")
    case False
    with Cons show ?thesis by simp
  next
    case True
    with Cons.prems obtain db where db: "fsys (dp @ tf @ ''/'' @ f) = Some db"
      "\<not> unresolved_record db" by auto
    from tracks_mean_speed_total[OF resolved_entries[OF db(2)]] obtain acc' where
      "tracks_mean_speed (dict_zip (df_category db)) (dict_zip (df_track db)) tf
         (groupby_mean (df_lidar_box db)) acc = Inr acc'" by blast
    with Cons True db show ?thesis by simp
  qed
qed

lemma folders_mean_speed_total:
  "i + length folders \<le> length tfs \<Longrightarrow>
   \<forall>k<length folders. \<forall>f\<in>set (tfs ! (i + k)). last3 f = ''.db'' \<longrightarrow>
      (\<exists>db. fsys (dp @ folders ! k @ ''/'' @ f) = Some db \<and> \<not> unresolved_record db) \<Longrightarrow>
   \<exists>out. folders_mean_speed fsys dp tfs i folders acc = Inr out"
proof (induction folders arbitrary: i acc)
  case Nil
  then show ?case by simp
next
  case (Cons a folders)
  from Cons.prems(1) have lt: "i < length tfs" by simp
  have "\<forall>f\<in>set (tfs ! i). last3 f = ''.db'' \<longrightarrow>
      (\<exists>db. fsys (dp @ a @ ''/'' @ f) = Some db \<and> \<not> unresolved_record db)"
    using Cons.prems(2)[rule_format, of 0] by simp
  from files_mean_speed_total[OF this] obtain acc' where
    step: "files_mean_speed fsys dp a (tfs ! i) acc = Inr acc'" by blast
  have all: "\<forall>k<length folders. \<forall>f\<in>set (tfs ! (Suc i + k)). last3 f = ''.db'' \<longrightarrow>
      (\<exists>db. fsys (dp @ folders ! k @ ''/'' @ f) = Some db \<and> \<not> unresolved_record db)"
  proof (intro allI impI)
    fix k assume "k < length folders"
    then show "\<forall>f\<in>set (tfs ! (Suc i + k)). last3 f = ''.db'' \<longrightarrow>
      (\<exists>db. fsys (dp @ folders ! k @ ''/'' @ f) = Some db \<and> \<not> unresolved_record db)"
      using Cons.prems(2)[rule_format, of "Suc k"] by simp
  qed
  from Cons.prems(1) have "Suc i + length folders \<le> length tfs" by simp
  from Cons.IH[OF this all, of acc'] step lt show ?case by simp
qed

lemma sqrt_5_12_0: "sqrt (5\<^sup>2 + 12\<^sup>2 + 0\<^sup>2) = 13"
proof -
  have "sqrt (5\<^sup>2 + 12\<^sup>2 + 0\<^sup>2) = sqrt (13\<^sup>2)" by simp
  then show ?thesis by simp
qed

lemma sort_example: "sort (remdups [''t1'', ''t0'', ''t1'']) = [''t0'', ''t1'']"
  by code_simp

lemma mean_speed_example:
  "plot_mean_speed_distribution (one_file three_track_db) [] [''f''] [[''a.db'']]
   = Inr [(''f'', ''pedestrian'', Fin 2), (''f'', ''vehicle'', Fin 9)]"
  by (simp add: plot_mean_speed_distribution_def last3_def one_file_def three_track_db_def
      groupby_mean_def sort_example resolve_def getitem_def dict_zip_def speed_def np_div_def
      sqrt_3_4_0 sqrt_5_12_0)


text \<open>
  C2 (as stated). The mean is taken per database, not per group. With the token \<open>t1\<close>
  in both databases of folder \<^verbatim>\<open>f\<close>, observed once in each with speeds 5 and 13, the
  list holds one row for each database, 5 and 13, while the mean over the frames of the
  track in the group is 9.
\<close>

theorem C2_track_in_two_databases_counterexample:
  "plot_mean_speed_distribution (two_files (vehicle_db 5 5) (fast_vehicle_db 6 5)) []
       [''f''] [[''a.db'', ''b.db'']]
     = Inr [(''f'', ''vehicle'', Fin 5), (''f'', ''vehicle'', Fin 13)]
   \<and> arithmetic_mean (map speed
         (group_frames [vehicle_db 5 5, fast_vehicle_db 6 5] ''t1'')) = 9"
  by (simp add: plot_mean_speed_distribution_def last3_def two_files_def vehicle_db_def
      fast_vehicle_db_def groupby_mean_def resolve_def getitem_def dict_zip_def speed_def
      np_div_def sqrt_3_4_0 sqrt_5_12_0 arithmetic_mean_def group_frames_def track_frames_def)

text \<open>
  C2 (amended). The mean speed is taken per database file: a track is a token of one
  database, and its frames are the \<^verbatim>\<open>lidar_box\<close> rows of that database carrying the
  token (velocities are finite numbers). When \<^verbatim>\<open>plot_mean_speed_distribution\<close> returns
  its list \<open>speeds\<close>: every record of every database read has its track in the list,
  under the folder's name and the track's category, with exactly the arithmetic mean of
  the speeds \<^verbatim>\<open>sqrt(vx**2 + vy**2 + vz**2)\<close> of the track's frames in that database;
  every entry of the list is such a row of a track with at least one frame, so a track
  with no frame never appears; and no entry is NaN. The call does return a list whenever
  there is a file list for every folder, every \<^verbatim>\<open>.db\<close> entry can be read and every
  record resolves.
\<close>

theorem C2_mean_speed_per_track:
  "(plot_mean_speed_distribution fsys dp folders tfs = Inr speeds \<longrightarrow>
      (\<forall>k f db r. k < length folders \<and> f \<in> set (tfs ! k) \<and> last3 f = ''.db''
           \<and> fsys (dp @ folders ! k @ ''/'' @ f) = Some db \<and> r \<in> set (df_lidar_box db) \<longrightarrow>
         (\<exists>c. resolve (dict_zip (df_category db)) (dict_zip (df_track db)) (track_token r) = Inr c
            \<and> (folders ! k, c,
                Fin (arithmetic_mean (map speed (track_frames db (track_token r)))))
              \<in> set speeds))
      \<and> (\<forall>entry\<in>set speeds. \<exists>k f db t c.
            k < length folders \<and> f \<in> set (tfs ! k) \<and> last3 f = ''.db''
            \<and> fsys (dp @ folders ! k @ ''/'' @ f) = Some db \<and> track_frames db t \<noteq> []
            \<and> resolve (dict_zip (df_category db)) (dict_zip (df_track db)) t = Inr c
            \<and> entry = (folders ! k, c, Fin (arithmetic_mean (map speed (track_frames db t)))))
      \<and> (\<forall>entry\<in>set speeds. snd (snd entry) \<noteq> NaN))
   \<and> (length folders \<le> length tfs
       \<and> (\<forall>k<length folders. \<forall>f\<in>set (tfs ! k). last3 f = ''.db'' \<longrightarrow>
             (\<exists>db. fsys (dp @ folders ! k @ ''/'' @ f) = Some db \<and> \<not> unresolved_record db))
      \<longrightarrow> (\<exists>out. plot_mean_speed_distribution fsys dp folders tfs = Inr out))"
proof (intro conjI impI)
  assume ok: "plot_mean_speed_distribution fsys dp folders tfs = Inr speeds"
  then have loop: "folders_mean_speed fsys dp tfs 0 folders [] = Inr speeds"
    by (simp add: plot_mean_speed_distribution_def)
  have mem: "x \<in> set speeds \<longleftrightarrow>
      (\<exists>k<length folders. \<exists>f\<in>set (tfs ! k). last3 f = ''.db'' \<and>
         (\<exists>db. fsys (dp @ folders ! k @ ''/'' @ f) = Some db
               \<and> x \<in> mean_speed_rows (folders ! k) db))" for x
    using folders_mean_speed_set[OF loop, of x] by simp
  show "\<forall>k f db r. k < length folders \<and> f \<in> set (tfs ! k) \<and> last3 f = ''.db''
           \<and> fsys (dp @ folders ! k @ ''/'' @ f) = Some db \<and> r \<in> set (df_lidar_box db) \<longrightarrow>
         (\<exists>c. resolve (dict_zip (df_category db)) (dict_zip (df_track db)) (track_token r) = Inr c
            \<and> (folders ! k, c,
                Fin (arithmetic_mean (map speed (track_frames db (track_token r)))))
              \<in> set speeds)"
  proof (intro allI impI)
    fix k f db r
    assume a: "k < length folders \<and> f \<in> set (tfs ! k) \<and> last3 f = ''.db''
           \<and> fsys (dp @ folders ! k @ ''/'' @ f) = Some db \<and> r \<in> set (df_lidar_box db)"
    then obtain c where
      c: "resolve (dict_zip (df_category db)) (dict_zip (df_track db)) (track_token r) = Inr c"
      using folders_mean_speed_resolved[OF loop, of k f db r] by auto
    from a have "track_frames db (track_token r) \<noteq> []"
      by (auto simp: track_frames_nonempty)
    with c have "(folders ! k, c,
        Fin (arithmetic_mean (map speed (track_frames db (track_token r)))))
        \<in> mean_speed_rows (folders ! k) db"
      unfolding mean_speed_rows_def by blast
    with a have "(folders ! k, c,
        Fin (arithmetic_mean (map speed (track_frames db (track_token r))))) \<in> set speeds"
      unfolding mem by blast
    with c show "\<exists>c. resolve (dict_zip (df_category db)) (dict_zip (df_track db))
            (track_token r) = Inr c
        \<and> (folders ! k, c,
            Fin (arithmetic_mean (map speed (track_frames db (track_token r)))))
          \<in> set speeds"
      by blast
  qed
  show "\<forall>entry\<in>set speeds. \<exists>k f db t c.
            k < length folders \<and> f \<in> set (tfs ! k) \<and> last3 f = ''.db''
            \<and> fsys (dp @ folders ! k @ ''/'' @ f) = Some db \<and> track_frames db t \<noteq> []
            \<and> resolve (dict_zip (df_category db)) (dict_zip (df_track db)) t = Inr c
            \<and> entry = (folders ! k, c, Fin (arithmetic_mean (map speed (track_frames db t))))"
  proof
    fix entry assume "entry \<in> set speeds"
    then obtain k f db where k: "k < length folders" "f \<in> set (tfs ! k)" "last3 f = ''.db''"
      "fsys (dp @ folders ! k @ ''/'' @ f) = Some db" "entry \<in> mean_speed_rows (folders ! k) db"
      unfolding mem by blast
    from k(5) obtain t c where "track_frames db t \<noteq> []"
      "resolve (dict_zip (df_category db)) (dict_zip (df_track db)) t = Inr c"
      "entry = (folders ! k, c, Fin (arithmetic_mean (map speed (track_frames db t))))"
      unfolding mean_speed_rows_def by blast
    with k(1-4) show "\<exists>k f db t c.
            k < length folders \<and> f \<in> set (tfs ! k) \<and> last3 f = ''.db''
            \<and> fsys (dp @ folders ! k @ ''/'' @ f) = Some db \<and> track_frames db t \<noteq> []
            \<and> resolve (dict_zip (df_category db)) (dict_zip (df_track db)) t = Inr c
            \<and> entry = (folders ! k, c, Fin (arithmetic_mean (map speed (track_frames db t))))"
      by blast
  qed
  show "\<forall>entry\<in>set speeds. snd (snd entry) \<noteq> NaN"
  proof
    fix entry assume "entry \<in> set speeds"
    then obtain k db where "entry \<in> mean_speed_rows (folders ! k) db"
      unfolding mem by blast
    then show "snd (snd entry) \<noteq> NaN"
      unfolding mean_speed_rows_def by auto
  qed
next
  assume a: "length folders \<le> length tfs
       \<and> (\<forall>k<length folders. \<forall>f\<in>set (tfs ! k). last3 f = ''.db'' \<longrightarrow>
             (\<exists>db. fsys (dp @ folders ! k @ ''/'' @ f) = Some db \<and> \<not> unresolved_record db))"
  have "\<exists>out. folders_mean_speed fsys dp tfs 0 folders [] = Inr out"
    by (rule folders_mean_speed_total) (use a in simp_all)
  then show "\<exists>out. plot_mean_speed_distribution fsys dp folders tfs = Inr out"
    by (simp add: plot_mean_speed_distribution_def)
qed

lemma three_track_db_frames:
  "arithmetic_mean (map speed (track_frames three_track_db ''t1'')) = 9"
  "arithmetic_mean (map speed (track_frames three_track_db ''t0'')) = 2"
  "track_frames three_track_db ''t3'' = []"
  "\<not> unresolved_record three_track_db"
  by (simp_all add: arithmetic_mean_def track_frames_def three_track_db_def speed_def
      sqrt_3_4_0 sqrt_5_12_0 unresolved_record_def resolve_def getitem_def dict_zip_def)

theorem C2_mean_speed_per_track_witness:
  "plot_mean_speed_distribution (one_file three_track_db) [] [''f''] [[''a.db'']]
     = Inr [(''f'', ''pedestrian'', Fin 2), (''f'', ''vehicle'', Fin 9)]
   \<and> one_file three_track_db ''f/a.db'' = Some three_track_db
   \<and> arithmetic_mean (map speed (track_frames three_track_db ''t1'')) = 9
   \<and> arithmetic_mean (map speed (track_frames three_track_db ''t0'')) = 2
   \<and> track_frames three_track_db ''t3'' = []
   \<and> \<not> unresolved_record three_track_db"
  using C2_mean_speed_per_track [of "one_file three_track_db" "[]" "[''f'']" "[[''a.db'']]"
      "[(''f'', ''pedestrian'', Fin 2), (''f'', ''vehicle'', Fin 9)]"]
    mean_speed_example three_track_db_frames
  by (simp add: one_file_def)

section \<open>Independence of the shuffle\<close>

lemma bump_commute: "bump i j s (bump i' j' s' g) = bump i' j' s' (bump i j s g)"
proof (cases "i = i'")
  case False
  then show ?thesis
    by (simp add: bump_def list_update_swap[of i i'])
next
  case True
  note ii = this
  show ?thesis
  proof (cases "i < length g")
    case False
    then show ?thesis by (simp add: bump_def ii list_update_beyond)
  next
    case True
    note il = this
    show ?thesis
    proof (cases "j = j'")
      case False
      then show ?thesis using il ii
        by (simp add: bump_def list_update_swap[of j j'])
    next
      case True
      show ?thesis
      proof (cases "j < length (g ! i)")
        case False
        then show ?thesis using il ii True by (simp add: bump_def list_update_beyond)
      next
        case True
        then show ?thesis using il ii \<open>j = j'\<close> by (simp add: bump_def add.commute add.left_commute)
      qed
    qed
  qed
qed

lemma accumulate_row_target:
  "accumulate_row x_min y_min mx my dc dt r g =
     (case row_target x_min y_min mx my dc dt r of
        Inl e \<Rightarrow> Inl e
      | Inr None \<Rightarrow> Inr g
      | Inr (Some (i, j)) \<Rightarrow> Inr (bump i j (speed r) g))"
  by (simp add: accumulate_row_def row_target_def bump_def
      split: sum.splits option.splits prod.splits)


lemma apply_action_commute:
  "apply_action a (apply_action b og) = apply_action b (apply_action a og)"
  by (auto simp: apply_action_def bump_commute split: option.splits)

lemma apply_action_simps:
  "apply_action a None = None"
  "apply_action None og = None"
  "apply_action (Some None) (Some g) = Some g"
  "apply_action (Some (Some (i, j, s))) (Some g) = Some (bump i j s g)"
  by (simp_all add: apply_action_def split: option.splits)

lemma fold_apply_action_None: "fold apply_action as None = None"
  by (induction as) (simp_all add: apply_action_simps)

lemma returned_Inr: "returned res = Some v \<longleftrightarrow> res = Inr v"
  by (cases res) (simp_all add: returned_def)

lemma returned_simps: "returned (Inl e) = None" "returned (Inr v) = Some v"
  by (simp_all add: returned_def)

lemma apply_row_action:
  "apply_action (row_action x_min y_min mx my dc dt r) (Some g) =
   returned (accumulate_row x_min y_min mx my dc dt r g)"
  by (simp add: accumulate_row_target row_action_def apply_action_simps returned_simps
      split: sum.splits option.splits prod.splits)

lemma rows_speed_fold:
  "returned (rows_speed x_min y_min mx my dc dt rs g) =
   fold apply_action (map (row_action x_min y_min mx my dc dt) rs) (Some g)"
proof (induction rs arbitrary: g)
  case Nil
  then show ?case by (simp add: returned_simps)
next
  case (Cons r rs)
  show ?case
  proof (cases "accumulate_row x_min y_min mx my dc dt r g")
    case (Inl e)
    then show ?thesis
      by (simp add: apply_row_action returned_simps fold_apply_action_None)
  next
    case (Inr g')
    then show ?thesis
      using Cons.IH[of g'] by (simp add: apply_row_action returned_simps)
  qed
qed

lemma file_actions_simps:
  "last3 f \<noteq> ''.db'' \<Longrightarrow> file_actions fsys dp tf x_min y_min mx my f = []"
  "last3 f = ''.db'' \<Longrightarrow> fsys (dp @ tf @ ''/'' @ f) = None \<Longrightarrow>
     file_actions fsys dp tf x_min y_min mx my f = [None]"
  "last3 f = ''.db'' \<Longrightarrow> fsys (dp @ tf @ ''/'' @ f) = Some db \<Longrightarrow>
     file_actions fsys dp tf x_min y_min mx my f =
       map (row_action x_min y_min mx my (dict_zip (df_category db)) (dict_zip (df_track db)))
         (df_lidar_box db)"
  by (simp_all add: file_actions_def)

lemma files_speed_fold:
  "returned (files_speed fsys dp tf x_min y_min mx my None files cnt g) =
   fold apply_action (concat (map (file_actions fsys dp tf x_min y_min mx my) files)) (Some g)"
proof (induction files arbitrary: g)
  case Nil
  then show ?case by (simp add: returned_simps)
next
  case (Cons f files)
  show ?case
  proof (cases "last3 f = ''.db''")
    case False
    with Cons.IH show ?thesis by (simp add: file_actions_simps)
  next
    case True
    note isdb = this
    show ?thesis
    proof (cases "fsys (dp @ tf @ ''/'' @ f)")
      case None
      have fa: "file_actions fsys dp tf x_min y_min mx my f = [None]"
        using isdb None by (rule file_actions_simps(2))
      with isdb None show ?thesis
        by (simp add: returned_simps apply_action_simps fold_apply_action_None)
    next
      case (Some db)
      have fa: "file_actions fsys dp tf x_min y_min mx my f =
          map (row_action x_min y_min mx my (dict_zip (df_category db)) (dict_zip (df_track db)))
            (df_lidar_box db)"
        using isdb Some by (rule file_actions_simps(3))
      show ?thesis
      proof (cases "rows_speed x_min y_min mx my (dict_zip (df_category db))
                     (dict_zip (df_track db)) (df_lidar_box db) g")
        case (Inl e)
        then have "fold apply_action (map (row_action x_min y_min mx my (dict_zip (df_category db))
                     (dict_zip (df_track db))) (df_lidar_box db)) (Some g) = None"
          using rows_speed_fold[of x_min y_min mx my "dict_zip (df_category db)"
              "dict_zip (df_track db)" "df_lidar_box db" g]
          by (simp add: returned_simps)
        with Inl isdb Some show ?thesis
          by (simp add: fa returned_simps fold_apply_action_None)
      next
        case (Inr g')
        then have "fold apply_action (map (row_action x_min y_min mx my (dict_zip (df_category db))
                     (dict_zip (df_track db))) (df_lidar_box db)) (Some g) = Some g'"
          using rows_speed_fold[of x_min y_min mx my "dict_zip (df_category db)"
              "dict_zip (df_track db)" "df_lidar_box db" g]
          by (simp add: returned_simps)
        with Inr isdb Some Cons.IH[of g'] show ?thesis
          by (simp add: fa)
      qed
    qed
  qed
qed

lemma mset_concat_map_cong:
  "mset xs = mset ys \<Longrightarrow> mset (concat (map f xs)) = mset (concat (map f ys))"
proof -
  assume a: "mset xs = mset ys"
  have "mset (concat (map f zs)) = sum_mset (image_mset (\<lambda>z. mset (f z)) (mset zs))" for zs
    by (induction zs) simp_all
  with a show ?thesis by simp
qed

lemma files_speed_permuted:
  assumes "mset files1 = mset files2"
  shows "returned (files_speed fsys dp tf x_min y_min mx my None files1 cnt g) =
         returned (files_speed fsys dp tf x_min y_min mx my None files2 cnt g)"
proof -
  have "fold apply_action (concat (map (file_actions fsys dp tf x_min y_min mx my) files1)) =
        fold apply_action (concat (map (file_actions fsys dp tf x_min y_min mx my) files2))"
    by (rule fold_multiset_equiv)
       (simp_all add: fun_eq_iff apply_action_commute mset_concat_map_cong[OF assms])
  then show ?thesis by (simp add: files_speed_fold)
qed


lemma folders_class_proportion_unsampled_any:
  "folders_class_proportion sh1 fsys dp None i folders tfs tbl =
   folders_class_proportion sh2 fsys dp None i folders tfs tbl"
  by (induction folders arbitrary: i tfs tbl) (auto simp: Let_def split: sum.splits)

lemma returned_finalize:
  "returned (case res of Inl e \<Rightarrow> Inl e | Inr speed_map \<Rightarrow> Inr (finalize speed_map)) =
   map_option finalize (returned res)"
  by (cases res) (simp_all add: returned_simps)

text \<open>
  C8 (as stated). The output depends on state that is no part of the input: the
  permutation drawn by \<^verbatim>\<open>np.random.shuffle\<close> from numpy's global generator. Two calls of
  \<^verbatim>\<open>plot_speed_distribution\<close> on the same boundary, the same two files and the same
  \<^verbatim>\<open>proportion\<close> 0.5 read one file each; when the first draw keeps the order and the
  second reverses it, they return different grids.
\<close>

theorem C8_sampled_output_depends_on_draw_counterexample:
  "snd (plot_speed_distribution (\<lambda>xs. xs) (two_files (vehicle_db 0 0) (vehicle_db 1 0))
          (0, 2, 0, 1) [] ''f'' [''a.db'', ''b.db''] (Some (1 / 2))) = Inr [[Fin 5, NaN]]
   \<and> snd (plot_speed_distribution rev (two_files (vehicle_db 0 0) (vehicle_db 1 0))
          (0, 2, 0, 1) [] ''f'' [''a.db'', ''b.db''] (Some (1 / 2))) = Inr [[NaN, Fin 5]]"
  by (simp add: plot_speed_distribution_def np_zeros_def py_int_def last3_def two_files_def
      vehicle_db_def accumulate_row_def resolve_def getitem_def dict_zip_def cell_of_def
      np_index_def speed_def sqrt_3_4_0 finalize_def np_div_def numeral_2_eq_2)

text \<open>
  C8 (amended). An operation is a function of its input and of the permutations drawn by
  \<^verbatim>\<open>np.random.shuffle\<close>. Without sampling (\<^verbatim>\<open>proportion\<close> is \<open>None\<close>)
  \<^verbatim>\<open>plot_trajectories\<close> and \<^verbatim>\<open>plot_class_proportion\<close> draw none, so their results
  do not depend on the draw, and \<^verbatim>\<open>plot_mean_speed_distribution\<close> takes no draw at
  all. \<^verbatim>\<open>plot_speed_distribution\<close> shuffles all the same: for every two permutations of
  the file list it fails for both or returns for both, the same cells being NaN, and
  its loop leaves the same count in every cell of the grid of zeros. Nothing is said
  of the means of the other cells, which are sums of the same speeds added in another
  order.
\<close>

theorem C8_unsampled_output_is_independent_of_draw:
  "plot_trajectories sh1 fsys dp tf files None = plot_trajectories sh2 fsys dp tf files None
   \<and> plot_class_proportion shs1 fsys dp folders tfs None =
       plot_class_proportion shs2 fsys dp folders tfs None
   \<and> class_proportion_normalised shs1 fsys dp folders tfs None =
       class_proportion_normalised shs2 fsys dp folders tfs None
   \<and> (mset (sh1 files) = mset files \<and> mset (sh2 files) = mset files \<longrightarrow>
        map_option (map (map (\<lambda>v. v = NaN)))
          (returned (snd (plot_speed_distribution sh1 fsys map_boundary dp tf files None))) =
        map_option (map (map (\<lambda>v. v = NaN)))
          (returned (snd (plot_speed_distribution sh2 fsys map_boundary dp tf files None))))
   \<and> (mset (sh1 files) = mset files \<and> mset (sh2 files) = mset files
        \<and> np_zeros my mx = Inr g \<longrightarrow>
        map_option (map (map snd))
          (returned (files_speed fsys dp tf x_min y_min mx my None (sh1 files) 0 g)) =
        map_option (map (map snd))
          (returned (files_speed fsys dp tf x_min y_min mx my None (sh2 files) 0 g)))"
proof (intro conjI impI)
  show "plot_trajectories sh1 fsys dp tf files None = plot_trajectories sh2 fsys dp tf files None"
    by (simp add: plot_trajectories_def)
next
  show counts: "plot_class_proportion shs1 fsys dp folders tfs None =
       plot_class_proportion shs2 fsys dp folders tfs None"
    unfolding plot_class_proportion_def by (rule folders_class_proportion_unsampled_any)
  then show "class_proportion_normalised shs1 fsys dp folders tfs None =
       class_proportion_normalised shs2 fsys dp folders tfs None"
    by (simp add: class_proportion_normalised_def)
next
  assume "mset (sh1 files) = mset files \<and> mset (sh2 files) = mset files"
  then have perm: "mset (sh1 files) = mset (sh2 files)" by simp
  obtain x_min' x_max' y_min' y_max' where
    mb: "map_boundary = (x_min', x_max', y_min', y_max')"
    by (cases map_boundary) auto
  have "returned (snd (plot_speed_distribution sh1 fsys map_boundary dp tf files None)) =
        returned (snd (plot_speed_distribution sh2 fsys map_boundary dp tf files None))"
  proof (cases "np_zeros (py_int (y_max' - y_min')) (py_int (x_max' - x_min'))")
    case (Inl e)
    with mb show ?thesis by (simp add: plot_speed_distribution_def)
  next
    case (Inr g0)
    with mb files_speed_permuted[OF perm, of fsys dp tf x_min' y_min'
        "py_int (x_max' - x_min')" "py_int (y_max' - y_min')" 0 g0]
    show ?thesis by (simp add: plot_speed_distribution_def returned_finalize)
  qed
  then show "map_option (map (map (\<lambda>v. v = NaN)))
          (returned (snd (plot_speed_distribution sh1 fsys map_boundary dp tf files None))) =
        map_option (map (map (\<lambda>v. v = NaN)))
          (returned (snd (plot_speed_distribution sh2 fsys map_boundary dp tf files None)))"
    by simp
next
  assume "mset (sh1 files) = mset files \<and> mset (sh2 files) = mset files
        \<and> np_zeros my mx = Inr g"
  then have perm: "mset (sh1 files) = mset (sh2 files)" by simp
  from files_speed_permuted[OF perm, of fsys dp tf x_min y_min mx my 0 g]
  show "map_option (map (map snd))
          (returned (files_speed fsys dp tf x_min y_min mx my None (sh1 files) 0 g)) =
        map_option (map (map snd))
          (returned (files_speed fsys dp tf x_min y_min mx my None (sh2 files) 0 g))"
    by simp
qed

theorem C8_unsampled_output_is_independent_of_draw_witness:
  "mset (rev [''a.db'', ''b.db'']) = mset [''a.db'', ''b.db'']
   \<and> np_zeros 1 2 = Inr [[(0, 0), (0, 0)]]
   \<and> map_option (map (map (\<lambda>v. v = NaN))) (returned (snd (plot_speed_distribution (\<lambda>xs. xs)
          (two_files (vehicle_db 0 0) (vehicle_db 0 0)) (0, 2, 0, 1) [] ''f''
          [''a.db'', ''b.db''] None))) = Some [[False, True]]
   \<and> map_option (map (map (\<lambda>v. v = NaN))) (returned (snd (plot_speed_distribution rev
          (two_files (vehicle_db 0 0) (vehicle_db 0 0)) (0, 2, 0, 1) [] ''f''
          [''a.db'', ''b.db''] None))) = Some [[False, True]]
   \<and> map_option (map (map snd)) (returned (files_speed
          (two_files (vehicle_db 0 0) (vehicle_db 0 0)) [] ''f'' 0 0 2 1 None
          (rev [''a.db'', ''b.db'']) 0 [[(0, 0), (0, 0)]])) = Some [[2, 0]]"
proof -
  have one: "returned (snd (plot_speed_distribution (\<lambda>xs. xs)
          (two_files (vehicle_db 0 0) (vehicle_db 0 0)) (0, 2, 0, 1) [] ''f''
          [''a.db'', ''b.db''] None)) = Some [[Fin 5, NaN]]"
    by (simp add: plot_speed_distribution_def np_zeros_def py_int_def last3_def two_files_def
      vehicle_db_def accumulate_row_def resolve_def getitem_def dict_zip_def cell_of_def
      np_index_def speed_def sqrt_3_4_0 finalize_def np_div_def numeral_2_eq_2 returned_simps)
  have two: "returned (files_speed
          (two_files (vehicle_db 0 0) (vehicle_db 0 0)) [] ''f'' 0 0 2 1 None
          [''a.db'', ''b.db''] 0 [[(0, 0), (0, 0)]]) = Some [[(10, 2), (0, 0)]]"
    by (simp add: last3_def two_files_def
      vehicle_db_def accumulate_row_def resolve_def getitem_def dict_zip_def cell_of_def
      np_index_def speed_def sqrt_3_4_0 py_int_def returned_simps)
  have zeros: "np_zeros 1 2 = Inr [[(0, 0), (0, 0)]]"
    by (simp add: np_zeros_def numeral_2_eq_2)
  show ?thesis
    using C8_unsampled_output_is_independent_of_draw [where ?sh1.0 = "\<lambda>xs. xs"
        and fsys = "two_files (vehicle_db 0 0) (vehicle_db 0 0)" and dp = "[]" and tf = "''f''"
        and files = "[''a.db'', ''b.db'']" and ?sh2.0 = rev
        and ?shs1.0 = "\<lambda>i xs. xs" and folders = "[''f'']" and tfs = "[[''a.db'', ''b.db'']]"
        and ?shs2.0 = "\<lambda>i. rev" and map_boundary = "(0, 2, 0, 1)"
        and my = 1 and mx = 2 and g = "[[(0, 0), (0, 0)]]" and x_min = 0 and y_min = 0]
      one two zeros
    by simp
qed

section \<open>Cells without records\<close>

text \<open>
  The sum and the count of a cell are written together, so a cell of the accumulated
  grid with count zero has sum zero, and line 243 divides zero by zero there.
\<close>

lemma cells_ok_np_zeros: "np_zeros my mx = Inr g \<Longrightarrow> cells_ok g"
  by (auto simp: np_zeros_def cells_ok_def split: if_splits)

lemma speed_nonneg: "0 \<le> speed r"
  by (simp add: speed_def)

lemma cells_ok_bump: "cells_ok g \<Longrightarrow> 0 \<le> s \<Longrightarrow> cells_ok (bump i j s g)"
proof -
  assume ok: "cells_ok g" and s: "0 \<le> s"
  show ?thesis
    unfolding cells_ok_def
  proof (intro ballI)
    fix row c assume row: "row \<in> set (bump i j s g)" and c: "c \<in> set row"
    show "0 \<le> fst c \<and> 0 \<le> snd c \<and> (snd c = 0 \<longrightarrow> fst c = 0)"
    proof (cases "row \<in> set g")
      case True
      with ok c show ?thesis by (auto simp: cells_ok_def)
    next
      case False
      have i: "i < length g"
      proof (rule ccontr)
        assume "\<not> i < length g"
        then have "bump i j s g = g" by (simp add: bump_def list_update_beyond)
        with row False show False by simp
      qed
      have "set (bump i j s g)
          \<subseteq> insert ((g ! i)[j := (fst (g ! i ! j) + s, snd (g ! i ! j) + 1)]) (set g)"
        unfolding bump_def by (rule set_update_subset_insert)
      with row False
      have r: "row = (g ! i)[j := (fst (g ! i ! j) + s, snd (g ! i ! j) + 1)]" by auto
      from i have gi: "g ! i \<in> set g" by simp
      show ?thesis
      proof (cases "c \<in> set (g ! i)")
        case True
        with ok gi show ?thesis by (auto simp: cells_ok_def)
      next
        case False
        have j: "j < length (g ! i)"
        proof (rule ccontr)
          assume "\<not> j < length (g ! i)"
          then have "row = g ! i" using r by (simp add: list_update_beyond)
          with c False show False by simp
        qed
        have "set row \<subseteq> insert (fst (g ! i ! j) + s, snd (g ! i ! j) + 1) (set (g ! i))"
          unfolding r by (rule set_update_subset_insert)
        with c False have ceq: "c = (fst (g ! i ! j) + s, snd (g ! i ! j) + 1)" by auto
        from j gi ok have "0 \<le> fst (g ! i ! j)" "0 \<le> snd (g ! i ! j)"
          by (auto simp: cells_ok_def)
        with ceq s show ?thesis by simp
      qed
    qed
  qed
qed

lemma cells_ok_accumulate_row:
  "cells_ok g \<Longrightarrow> accumulate_row x_min y_min mx my dc dt r g = Inr g' \<Longrightarrow> cells_ok g'"
  by (auto simp: accumulate_row_target cells_ok_bump speed_nonneg split: sum.splits option.splits)

lemma cells_ok_rows_speed:
  "cells_ok g \<Longrightarrow> rows_speed x_min y_min mx my dc dt rs g = Inr g' \<Longrightarrow> cells_ok g'"
  by (induction rs arbitrary: g) (auto split: sum.splits dest: cells_ok_accumulate_row)

lemma cells_ok_files_speed:
  "cells_ok g \<Longrightarrow> files_speed fsys dp tf x_min y_min mx my mi files cnt g = Inr g' \<Longrightarrow> cells_ok g'"
proof (induction files arbitrary: cnt g)
  case Nil
  then show ?case by simp
next
  case (Cons f files)
  show ?case
  proof (cases "last3 f = ''.db''")
    case False
    with Cons show ?thesis by simp
  next
    case True
    with Cons.prems(2) obtain db g1 where
      db: "fsys (dp @ tf @ ''/'' @ f) = Some db"
      and g1: "rows_speed x_min y_min mx my (dict_zip (df_category db)) (dict_zip (df_track db))
                 (df_lidar_box db) g = Inr g1"
      by (auto split: option.splits sum.splits)
    from cells_ok_rows_speed[OF Cons.prems(1) g1] have ok1: "cells_ok g1" .
    show ?thesis
    proof (cases mi)
      case None
      with Cons.prems(2) True db g1
      have "files_speed fsys dp tf x_min y_min mx my mi files cnt g1 = Inr g'" by simp
      from Cons.IH[OF ok1 this] show ?thesis .
    next
      case (Some m)
      show ?thesis
      proof (cases "m \<le> cnt + 1")
        case True
        with Cons.prems(2) \<open>last3 f = ''.db''\<close> db g1 Some have "g' = g1" by simp
        with ok1 show ?thesis by simp
      next
        case False
        with Cons.prems(2) \<open>last3 f = ''.db''\<close> db g1 Some
        have "files_speed fsys dp tf x_min y_min mx my mi files (cnt + 1) g1 = Inr g'" by simp
        from Cons.IH[OF ok1 this] show ?thesis .
      qed
    qed
  qed
qed

lemma finalized_cells:
  assumes "snd (plot_speed_distribution sh fsys map_boundary dp tf files prop) = Inr out"
  shows "\<exists>speed_map. out = finalize speed_map \<and>
           (\<forall>row\<in>set speed_map. \<forall>c\<in>set row.
              (snd c = 0 \<longrightarrow> np_div (fst c) (snd c) = NaN) \<and>
              (snd c \<noteq> 0 \<longrightarrow> np_div (fst c) (snd c) = Fin (fst c / snd c)))"
proof -
  obtain x_min x_max y_min y_max where mb: "map_boundary = (x_min, x_max, y_min, y_max)"
    by (cases map_boundary) auto
  from assms mb obtain g g' where g: "np_zeros (py_int (y_max - y_min)) (py_int (x_max - x_min)) = Inr g"
    and g': "files_speed fsys dp tf x_min y_min (py_int (x_max - x_min)) (py_int (y_max - y_min))
               (map_option (\<lambda>p. py_int (real (length (sh files)) * p)) prop) (sh files) 0 g = Inr g'"
    and out: "out = finalize g'"
    by (auto simp: plot_speed_distribution_def split: sum.splits)
  from cells_ok_files_speed[OF cells_ok_np_zeros[OF g] g'] have "cells_ok g'" .
  then have "\<forall>row\<in>set g'. \<forall>c\<in>set row.
              (snd c = 0 \<longrightarrow> np_div (fst c) (snd c) = NaN) \<and>
              (snd c \<noteq> 0 \<longrightarrow> np_div (fst c) (snd c) = Fin (fst c / snd c))"
    by (auto simp: cells_ok_def np_div_def)
  with out show ?thesis by blast
qed

section \<open>Division by zero\<close>

lemma df_div_error: "df_div tbl folders = Inl e \<Longrightarrow> e = ZeroDivisionError"
  by (induction folders arbitrary: e) (auto split: if_splits sum.splits)

lemma df_div_raises:
  "df_div tbl folders = Inl ZeroDivisionError \<longleftrightarrow> (\<exists>folder\<in>set folders. row_sum tbl folder = 0)"
  by (induction folders) (auto split: sum.splits dest: df_div_error)

lemma df_div_returns:
  "(\<exists>rows. df_div tbl folders = Inr rows) \<longleftrightarrow> (\<forall>folder\<in>set folders. row_sum tbl folder \<noteq> 0)"
proof (cases "df_div tbl folders")
  case (Inl e)
  with df_div_error[OF Inl] df_div_raises[of tbl folders] show ?thesis by auto
next
  case (Inr rows)
  with df_div_raises[of tbl folders] show ?thesis by auto
qed

lemma snd_class_proportion_normalised:
  "snd (plot_class_proportion shs fsys dp folders tfs prop) = Inr tbl \<Longrightarrow>
   snd (class_proportion_normalised shs fsys dp folders tfs prop) = df_div tbl folders"
  by (simp add: class_proportion_normalised_def case_prod_beta)

text \<open>
  C6 (as stated). The normalisation of line 147 does abort on a row whose sum is zero.
  Folder \<^verbatim>\<open>f\<close> with a database that has no track of a dynamic category gets the row
  0, 0, 0, 0; its sum is 0, and Python's division of the cells by it raises
  ZeroDivisionError.
\<close>

theorem C6_zero_row_sum_raises_counterexample:
  "(case snd (plot_class_proportion (\<lambda>i xs. xs) (one_file orphan_db) [] [''f'']
               [[''a.db'']] None) of
      Inl e \<Rightarrow> None
    | Inr df_proportion \<Rightarrow> Some (row_of df_proportion ''f''))
     = Some [Some 0, Some 0, Some 0, Some 0]
   \<and> snd (class_proportion_normalised (\<lambda>i xs. xs) (one_file orphan_db) [] [''f'']
          [[''a.db'']] None) = Inl ZeroDivisionError"
  by (simp add: orphan_db_def getitem_def dict_zip_def class_proportion_normalised_def
      plot_class_proportion_def one_file_def last3_def dynamic_category_def row_of_def
      row_sum_def)

text \<open>
  C6 (amended). When the counts are built, the normalisation of
  \<^verbatim>\<open>plot_class_proportion\<close> raises ZeroDivisionError exactly when the row of some
  folder sums to zero, and returns the proportions exactly when no row does. The
  finalisation of \<^verbatim>\<open>plot_speed_distribution\<close> does not abort: whenever the grid is
  allocated and the loop over the files returns, the call returns the grid of means;
  there a cell with count zero has sum zero and is NaN, and a cell with another count
  is not NaN.
\<close>

theorem C6_division_by_zero:
  "(snd (plot_class_proportion shs fsys dp folders tfs proportion) = Inr df_proportion \<longrightarrow>
      ((snd (class_proportion_normalised shs fsys dp folders tfs proportion) = Inl ZeroDivisionError)
         = (\<exists>folder\<in>set folders. row_sum df_proportion folder = 0))
      \<and> ((\<exists>rows. snd (class_proportion_normalised shs fsys dp folders tfs proportion) = Inr rows)
         = (\<forall>folder\<in>set folders. row_sum df_proportion folder \<noteq> 0)))
   \<and> (np_zeros (py_int (y_max - y_min)) (py_int (x_max - x_min)) = Inr g
       \<and> files_speed fsys dp tf x_min y_min (py_int (x_max - x_min)) (py_int (y_max - y_min))
            (map_option (\<lambda>p. py_int (real (length (sh files)) * p)) proportion) (sh files) 0 g
          = Inr speed_map \<longrightarrow>
        snd (plot_speed_distribution sh fsys (x_min, x_max, y_min, y_max) dp tf files proportion)
          = Inr (finalize speed_map)
        \<and> (\<forall>row\<in>set speed_map. \<forall>c\<in>set row.
              (snd c = 0 \<longrightarrow> fst c = 0 \<and> np_div (fst c) (snd c) = NaN)
              \<and> (snd c \<noteq> 0 \<longrightarrow> np_div (fst c) (snd c) \<noteq> NaN)))"
proof (intro conjI impI)
  assume counts: "snd (plot_class_proportion shs fsys dp folders tfs proportion) = Inr df_proportion"
  show "(snd (class_proportion_normalised shs fsys dp folders tfs proportion) = Inl ZeroDivisionError)
         = (\<exists>folder\<in>set folders. row_sum df_proportion folder = 0)"
    unfolding snd_class_proportion_normalised[OF counts] by (rule df_div_raises)
  show "(\<exists>rows. snd (class_proportion_normalised shs fsys dp folders tfs proportion) = Inr rows)
         = (\<forall>folder\<in>set folders. row_sum df_proportion folder \<noteq> 0)"
    unfolding snd_class_proportion_normalised[OF counts] by (rule df_div_returns)
next
  assume a: "np_zeros (py_int (y_max - y_min)) (py_int (x_max - x_min)) = Inr g
       \<and> files_speed fsys dp tf x_min y_min (py_int (x_max - x_min)) (py_int (y_max - y_min))
            (map_option (\<lambda>p. py_int (real (length (sh files)) * p)) proportion) (sh files) 0 g
          = Inr speed_map"
  then show "snd (plot_speed_distribution sh fsys (x_min, x_max, y_min, y_max) dp tf files proportion)
          = Inr (finalize speed_map)"
    by (simp add: plot_speed_distribution_def)
  from a have "cells_ok speed_map"
    using cells_ok_files_speed[OF cells_ok_np_zeros] by blast
  then show "\<forall>row\<in>set speed_map. \<forall>c\<in>set row.
              (snd c = 0 \<longrightarrow> fst c = 0 \<and> np_div (fst c) (snd c) = NaN)
              \<and> (snd c \<noteq> 0 \<longrightarrow> np_div (fst c) (snd c) \<noteq> NaN)"
    by (auto simp: cells_ok_def np_div_def)
qed

lemma stray_db_counts:
  "snd (plot_class_proportion (\<lambda>i xs. xs) (one_file stray_db) [] [''f''] [[''a.db'']] None)
   = Inr [(''f'', ''vehicle'') \<mapsto> 1, (''f'', ''bicycle'') \<mapsto> 0, (''f'', ''pedestrian'') \<mapsto> 0,
          (''f'', ''generic_object'') \<mapsto> 0]"
  by (simp add: stray_db_def getitem_def dict_zip_def plot_class_proportion_def one_file_def
      last3_def dynamic_category_def)

lemma orphan_db_counts:
  "snd (plot_class_proportion (\<lambda>i xs. xs) (one_file orphan_db) [] [''f''] [[''a.db'']] None)
   = Inr [(''f'', ''vehicle'') \<mapsto> 0, (''f'', ''bicycle'') \<mapsto> 0, (''f'', ''pedestrian'') \<mapsto> 0,
          (''f'', ''generic_object'') \<mapsto> 0]"
  by (simp add: orphan_db_def getitem_def dict_zip_def plot_class_proportion_def one_file_def
      last3_def dynamic_category_def)

theorem C6_division_by_zero_witness:
  "row_sum [(''f'', ''vehicle'') \<mapsto> 0, (''f'', ''bicycle'') \<mapsto> 0, (''f'', ''pedestrian'') \<mapsto> 0,
          (''f'', ''generic_object'') \<mapsto> 0] ''f'' = 0
   \<and> snd (class_proportion_normalised (\<lambda>i xs. xs) (one_file orphan_db) [] [''f'']
          [[''a.db'']] None) = Inl ZeroDivisionError
   \<and> row_sum [(''f'', ''vehicle'') \<mapsto> 1, (''f'', ''bicycle'') \<mapsto> 0, (''f'', ''pedestrian'') \<mapsto> 0,
          (''f'', ''generic_object'') \<mapsto> 0] ''f'' = 1
   \<and> snd (class_proportion_normalised (\<lambda>i xs. xs) (one_file stray_db) [] [''f'']
          [[''a.db'']] None) = Inr [(''f'', [Fin 1, Fin 0, Fin 0, Fin 0])]
   \<and> np_zeros (py_int (1 - 0)) (py_int (2 - 0)) = Inr [[(0, 0), (0, 0)]]
   \<and> files_speed (one_file (vehicle_db 0 0)) [] ''f'' 0 0 (py_int (2 - 0)) (py_int (1 - 0))
        None [''a.db''] 0 [[(0, 0), (0, 0)]] = Inr [[(5, 1), (0, 0)]]
   \<and> snd (plot_speed_distribution (\<lambda>xs. xs) (one_file (vehicle_db 0 0)) (0, 2, 0, 1) []
          ''f'' [''a.db''] None) = Inr [[Fin 5, NaN]]"
proof -
  have sums: "row_sum [(''f'', ''vehicle'') \<mapsto> 0, (''f'', ''bicycle'') \<mapsto> 0,
          (''f'', ''pedestrian'') \<mapsto> 0, (''f'', ''generic_object'') \<mapsto> 0] ''f'' = 0"
    "row_sum [(''f'', ''vehicle'') \<mapsto> 1, (''f'', ''bicycle'') \<mapsto> 0,
          (''f'', ''pedestrian'') \<mapsto> 0, (''f'', ''generic_object'') \<mapsto> 0] ''f'' = 1"
    by (simp_all add: row_sum_def dynamic_category_def)
  have stray: "snd (class_proportion_normalised (\<lambda>i xs. xs) (one_file stray_db) [] [''f'']
          [[''a.db'']] None) = Inr [(''f'', [Fin 1, Fin 0, Fin 0, Fin 0])]"
    by (simp add: stray_db_def getitem_def dict_zip_def class_proportion_normalised_def
      plot_class_proportion_def one_file_def last3_def dynamic_category_def row_sum_def)
  have zeros: "np_zeros (py_int (1 - 0)) (py_int (2 - 0)) = Inr [[(0, 0), (0, 0)]]"
    by (simp add: np_zeros_def py_int_def numeral_2_eq_2)
  have loop: "files_speed (one_file (vehicle_db 0 0)) [] ''f'' 0 0 (py_int (2 - 0))
        (py_int (1 - 0)) None [''a.db''] 0 [[(0, 0), (0, 0)]] = Inr [[(5, 1), (0, 0)]]"
    by (simp add: last3_def one_file_def vehicle_db_def accumulate_row_def resolve_def
        getitem_def dict_zip_def cell_of_def np_index_def speed_def sqrt_3_4_0 py_int_def)
  show ?thesis
    using
      C6_division_by_zero [where shs = "\<lambda>i xs. xs" and fsys = "one_file orphan_db"
        and dp = "[]" and folders = "[''f'']" and tfs = "[[''a.db'']]" and proportion = None
        and df_proportion = "[(''f'', ''vehicle'') \<mapsto> 0, (''f'', ''bicycle'') \<mapsto> 0,
          (''f'', ''pedestrian'') \<mapsto> 0, (''f'', ''generic_object'') \<mapsto> 0]"
        and x_min = 0 and x_max = 2 and y_min = 0 and y_max = 1]
      C6_division_by_zero [where shs = "\<lambda>i xs. xs" and fsys = "one_file (vehicle_db 0 0)"
        and dp = "[]" and folders = "[''f'']" and tfs = "[[''a.db'']]" and proportion = None
        and x_min = 0 and x_max = 2 and y_min = 0 and y_max = 1
        and g = "[[(0, 0), (0, 0)]]" and tf = "''f''" and sh = "\<lambda>xs. xs"
        and files = "[''a.db'']" and speed_map = "[[(5, 1), (0, 0)]]"]
      orphan_db_counts sums stray zeros loop
    by (simp add: finalize_def np_div_def)
qed

end
